theory Spec2Isabelle
  imports Main
begin

section \<open>Python values shared by the three modules\<close>

text \<open>
  Python strings are modelled as \<open>string\<close>; one \<open>char\<close> stands for one code point in the
  range 0..255. An \<open>Optional[str]\<close> is a \<open>string option\<close>, and its truth value (\<open>if x:\<close>)
  is \<open>truthy\<close>: \<open>None\<close> and the empty string are both false.
\<close>

datatype error =
    ValueError string
  | SystemExit int
  | KeyError string
  | TypeError
  | JSONDecodeError
  | CollaboratorError

definition truthy :: "string option \<Rightarrow> bool" where
  "truthy x = (case x of None \<Rightarrow> False | Some s \<Rightarrow> s \<noteq> [])"

text \<open>\<open>f'{x}'\<close> for an optional string: \<open>None\<close> prints as the word None.\<close>

definition py_format :: "string option \<Rightarrow> string" where
  "py_format x = (case x of None \<Rightarrow> ''None'' | Some s \<Rightarrow> s)"

subsection \<open>Decimal output of numbers\<close>

definition digit_char :: "nat \<Rightarrow> char" where
  "digit_char d = char_of (48 + d)"

function py_str_nat :: "nat \<Rightarrow> string" where
  "py_str_nat n = (if n < 10 then [digit_char n] else py_str_nat (n div 10) @ [digit_char (n mod 10)])"
  by pat_completeness auto
termination
  by (relation "measure id") auto

declare py_str_nat.simps [simp del]

definition py_str_int :: "int \<Rightarrow> string" where
  "py_str_int i = (if i < 0 then ''-'' @ py_str_nat (nat (- i)) else py_str_nat (nat i))"

text \<open>The format specification \<open>{n:,}\<close>: a comma between groups of three digits, from the right.\<close>

fun commas_rev :: "string \<Rightarrow> string" where
  "commas_rev (a # b # c # d # rest) = a # b # c # CHR '','' # commas_rev (d # rest)"
| "commas_rev ds = ds"

definition py_format_comma :: "nat \<Rightarrow> string" where
  "py_format_comma n = rev (commas_rev (rev (py_str_nat n)))"

subsection \<open>JSON values and \<open>json.dumps\<close>\<close>

text \<open>
  \<open>json.dumps\<close> with its default arguments: items separated by a comma and a space, keys
  from values by a colon and a space, dictionaries in insertion order, and every character
  outside the printable ASCII range escaped (\<open>ensure_ascii\<close>).
\<close>

datatype json =
    JNull
  | JBool bool
  | JNumber int
  | JString string
  | JArray "json list"
  | JObject "(string \<times> json) list"

definition hex_digit :: "nat \<Rightarrow> char" where
  "hex_digit d = (if d < 10 then char_of (48 + d) else char_of (87 + d))"

definition json_escape_char :: "char \<Rightarrow> string" where
  "json_escape_char c =
     (let n = (of_char c :: nat) in
      if n = 34 then [CHR 0x5C, CHR 0x22]
      else if n = 92 then [CHR 0x5C, CHR 0x5C]
      else if n = 10 then [CHR 0x5C, CHR ''n'']
      else if n = 13 then [CHR 0x5C, CHR ''r'']
      else if n = 9 then [CHR 0x5C, CHR ''t'']
      else if n = 8 then [CHR 0x5C, CHR ''b'']
      else if n = 12 then [CHR 0x5C, CHR ''f'']
      else if 32 \<le> n \<and> n \<le> 126 then [c]
      else [CHR 0x5C, CHR ''u'', CHR ''0'', CHR ''0'', hex_digit (n div 16), hex_digit (n mod 16)])"

definition json_string :: "string \<Rightarrow> string" where
  "json_string s = [CHR 0x22] @ concat (map json_escape_char s) @ [CHR 0x22]"

fun intercalate :: "'a list \<Rightarrow> 'a list list \<Rightarrow> 'a list" where
  "intercalate sep [] = []"
| "intercalate sep [x] = x"
| "intercalate sep (x # y # ys) = x @ sep @ intercalate sep (y # ys)"

fun json_dumps :: "json \<Rightarrow> string" where
  "json_dumps JNull = ''null''"
| "json_dumps (JBool b) = (if b then ''true'' else ''false'')"
| "json_dumps (JNumber i) = py_str_int i"
| "json_dumps (JString s) = json_string s"
| "json_dumps (JArray xs) = ''['' @ intercalate '', '' (map json_dumps xs) @ '']''"
| "json_dumps (JObject kvs) =
     ''{'' @ intercalate '', '' (map (\<lambda>kv. json_string (fst kv) @ '': '' @ json_dumps (snd kv)) kvs) @ ''}''"

section \<open>The audit tool (\<open>parquet_cli/audit_tool/audit_tool.py\<close>)\<close>

subsection \<open>\<open>append_slash\<close> and \<open>key_to_sqs_msg\<close>\<close>

definition append_slash :: "string option \<Rightarrow> string option" where
  "append_slash string =
     (case string of
        None \<Rightarrow> None
      | Some s \<Rightarrow>
          if s = [] then Some s
          else if last s \<noteq> CHR ''/'' then Some (s @ ''/'')
          else Some s)"

definition key_to_sqs_msg :: "string \<Rightarrow> string \<Rightarrow> string" where
  "key_to_sqs_msg key bucket =
     (let s3_event =
        JObject [(''Records'',
          JArray [JObject [
            (''eventName'', JString ''ObjectCreated:Put''),
            (''s3'', JObject [
               (''bucket'', JObject [(''name'', JString bucket)]),
               (''object'', JObject [(''key'', JString key)])])]])];
        sqs_body = json_dumps s3_event
      in sqs_body)"

subsection \<open>The collaborators of \<open>audit\<close>\<close>

text \<open>
  The process environment, as far as \<open>audit\<close> reads it. A variable that is not set is
  \<open>None\<close>.
\<close>

record environ =
  AWS_ACCESS_KEY_ID :: "string option"
  AWS_SECRET_ACCESS_KEY :: "string option"
  AWS_SESSION_TOKEN :: "string option"
  OPENSEARCH_ENDPOINT :: "string option"
  OPENSEARCH_PORT :: "string option"
  OPENSEARCH_INDEX :: "string option"
  OPENSEARCH_PATH_PREFIX :: "string option"
  OPENSEARCH_BUCKET :: "string option"
  OPENSEARCH_ID_PREFIX :: "string option"

text \<open>
  An entry of a listing page (a dictionary of the store; the code reads its \<open>'Key'\<close> only)
  and a page, whose \<open>'Contents'\<close> entry may be absent.
\<close>

record s3_object =
  Key :: string
  Size :: nat

type_synonym page = "s3_object list option"

text \<open>
  The list \<open>keys\<close> holds the listed dictionaries, and \<open>resume_from_key\<close> is a string; the
  membership test and \<open>list.index\<close> compare the two as Python values.
\<close>

datatype pyval = PyStr string | PyDict s3_object

text \<open>
  What \<open>opensearch_client.get\<close> can do: return a value (\<open>None\<close>, something that is not a
  dictionary, or a dictionary whose \<open>'found'\<close> entry is absent, false or true), raise
  \<open>NotFoundError\<close>, or raise any other exception.
\<close>

datatype es_response = RespNone | RespNotDict | RespDict "bool option"

datatype es_outcome = Returns es_response | RaisesNotFoundError | RaisesException

text \<open>
  The host context: \<open>remaining_time_in_millis ctx n\<close> is what the call number \<open>n\<close>
  (from 0) of \<open>get_remaining_time_in_millis()\<close> returns in this run.
\<close>

record lambda_context =
  function_name :: string
  remaining_time_in_millis :: "nat \<Rightarrow> int"

text \<open>
  The calls the run makes on the outside world, in the order it makes them. Writing the
  output file is one event holding the file's final content. Logging and the writes to
  standard output are left out.
\<close>

datatype event =
    S3ListPage string string
  | EsGet string string
  | FileWrite string string
  | SqsSendMessage "string option" string
  | SnsPublish string string string
  | LambdaInvoke string string string

record audit_state =
  count :: nat
  error_count :: nat
  error_s3_keys :: "string list"
  missing_keys :: "string list"
  need_to_resume :: bool
  resume_from_key :: "string option"
  trace :: "event list"

subsection \<open>\<open>audit\<close>\<close>

definition page_contents :: "page \<Rightarrow> s3_object list" where
  "page_contents p = (case p of None \<Rightarrow> [] | Some objs \<Rightarrow> objs)"

text \<open>Lines 139 to 143: every page is fetched and its objects are appended to \<open>keys\<close>.\<close>

fun list_pages :: "string \<Rightarrow> string \<Rightarrow> page list \<Rightarrow> s3_object list \<times> event list \<Rightarrow> s3_object list \<times> event list" where
  "list_pages bucket path_prefix [] acc = acc"
| "list_pages bucket path_prefix (p # ps) (keys, tr) =
     list_pages bucket path_prefix ps (keys @ page_contents p, tr @ [S3ListPage bucket path_prefix])"

fun py_index :: "'a list \<Rightarrow> 'a \<Rightarrow> nat" where
  "py_index [] v = 0"
| "py_index (x # xs) v = (if x = v then 0 else Suc (py_index xs v))"

text \<open>Lines 145 to 152. \<open>py_index\<close> is only called on a value that is in the list.\<close>

definition resume_keys :: "string option \<Rightarrow> s3_object list \<Rightarrow> s3_object list" where
  "resume_keys resume_from_key0 keys =
     (let index =
        (case resume_from_key0 of
           None \<Rightarrow> 0
         | Some k \<Rightarrow>
             if PyStr k \<in> set (map PyDict keys) then py_index (map PyDict keys) (PyStr k) else 0)
      in drop index keys)"

definition about_to_time_out :: "lambda_context option \<Rightarrow> nat \<Rightarrow> bool" where
  "about_to_time_out lambda_ctx n =
     (case lambda_ctx of None \<Rightarrow> False | Some ctx \<Rightarrow> remaining_time_in_millis ctx n < 60 * 1000)"

definition record_missing :: "s3_object \<Rightarrow> audit_state \<Rightarrow> audit_state" where
  "record_missing obj st =
     st\<lparr>error_count := error_count st + 1,
        error_s3_keys := error_s3_keys st @ [Key obj],
        missing_keys := missing_keys st @ [Key obj]\<rparr>"

text \<open>
  Lines 166 to 183, the \<open>try\<close> statement. Subscripting a dictionary that has no \<open>'found'\<close>
  entry raises \<open>KeyError\<close>, which the last handler catches.
\<close>

definition check_key :: "(string \<Rightarrow> string \<Rightarrow> es_outcome) \<Rightarrow> string \<Rightarrow> string \<Rightarrow> s3_object \<Rightarrow> audit_state \<Rightarrow> audit_state" where
  "check_key es_get index id_prefix obj st =
     (let opensearch_id = id_prefix @ Key obj;
          st1 = st\<lparr>trace := trace st @ [EsGet index opensearch_id]\<rparr>
      in case es_get index opensearch_id of
           Returns RespNone \<Rightarrow> record_missing obj st1
         | Returns RespNotDict \<Rightarrow> record_missing obj st1
         | Returns (RespDict None) \<Rightarrow> st1\<lparr>error_count := error_count st1 + 1\<rparr>
         | Returns (RespDict (Some found)) \<Rightarrow> if \<not> found then record_missing obj st1 else st1
         | RaisesNotFoundError \<Rightarrow> record_missing obj st1
         | RaisesException \<Rightarrow> st1\<lparr>error_count := error_count st1 + 1\<rparr>)"

text \<open>Lines 156 to 186, the loop over \<open>keys\<close>; \<open>n\<close> counts the time checks made so far.\<close>

fun audit_loop :: "lambda_context option \<Rightarrow> (string \<Rightarrow> string \<Rightarrow> es_outcome) \<Rightarrow> string \<Rightarrow> string \<Rightarrow> nat \<Rightarrow> s3_object list \<Rightarrow> audit_state \<Rightarrow> audit_state" where
  "audit_loop lambda_ctx es_get index id_prefix n [] st = st"
| "audit_loop lambda_ctx es_get index id_prefix n (obj # rest) st =
     (if about_to_time_out lambda_ctx n
      then st\<lparr>need_to_resume := True, resume_from_key := Some (Key obj)\<rparr>
      else audit_loop lambda_ctx es_get index id_prefix (Suc n) rest
             (check_key es_get index id_prefix obj (st\<lparr>count := count st + 1\<rparr>)))"

text \<open>Lines 191 to 213, the two output strategies.\<close>

definition result_sink :: "string \<Rightarrow> string option \<Rightarrow> string option \<Rightarrow> string \<Rightarrow> string list \<Rightarrow> event list" where
  "result_sink format output_file sns_topic bucket missing =
     (if format = ''plain'' then
        (case output_file of
           None \<Rightarrow> []
         | Some f \<Rightarrow> if f = [] then [] else [FileWrite f (concat (map (\<lambda>key. key @ [CHR 0x0A]) missing))])
      else
        (let sqs_messages = map (\<lambda>k. key_to_sqs_msg k bucket) missing
         in map (SqsSendMessage output_file) sqs_messages @
            (case sns_topic of
               None \<Rightarrow> []
             | Some t \<Rightarrow>
                 if t = [] then []
                 else [SnsPublish t
                         (''Parquet stats audit found '' @ py_format_comma (length missing) @
                          '' missing keys. Trying to republish to SQS.'')
                         ''Insitu audit''])))"

text \<open>Lines 215 to 220, the asynchronous re-invocation.\<close>

definition reinvoke :: "lambda_context option \<Rightarrow> audit_state \<Rightarrow> event list" where
  "reinvoke lambda_ctx st =
     (if need_to_resume st then
        (case (lambda_ctx, resume_from_key st) of
           (Some ctx, Some k) \<Rightarrow>
             [LambdaInvoke (function_name ctx) ''Event'' (json_dumps (JObject [(''ResumeFromKey'', JString k)]))]
         | _ \<Rightarrow> [])
      else [])"

text \<open>
  Lines 89 and 91: the two prefixes read from the environment. The default of the
  document-id prefix is built from the bucket name.
\<close>

definition opensearch_path_prefix :: "environ \<Rightarrow> string option" where
  "opensearch_path_prefix env = append_slash (OPENSEARCH_PATH_PREFIX env)"

definition opensearch_id_prefix :: "environ \<Rightarrow> string option" where
  "opensearch_id_prefix env =
     append_slash (Some (case OPENSEARCH_ID_PREFIX env of
                           None \<Rightarrow> ''s3://'' @ py_format (OPENSEARCH_BUCKET env) @ ''/''
                         | Some p \<Rightarrow> p))"

definition init_state :: "string option \<Rightarrow> audit_state" where
  "init_state resume_from_key0 =
     \<lparr>count = 0, error_count = 0, error_s3_keys = [], missing_keys = [],
      need_to_resume = False, resume_from_key = resume_from_key0, trace = []\<rparr>"

text \<open>
  The whole function. The result is the exception that ends the run, if any, and the
  local variables and the calls made up to that point. \<open>exit(1)\<close> is \<open>SystemExit 1\<close>.
  The construction of the clients and the calls on them are taken to return.
\<close>

definition audit :: "environ \<Rightarrow> page list \<Rightarrow> (string \<Rightarrow> string \<Rightarrow> es_outcome) \<Rightarrow> string \<Rightarrow> string option \<Rightarrow> string option \<Rightarrow> string option \<Rightarrow> lambda_context option \<Rightarrow> error option \<times> audit_state" where
  "audit env pages es_get format output_file sns_topic resume_from_key0 lambda_ctx =
     (if format = ''mock-s3'' \<and> \<not> truthy output_file then
        (Some (ValueError ''Output file MUST be defined with mock-s3 output format''),
         init_state resume_from_key0)
      else if AWS_ACCESS_KEY_ID env = None \<or> AWS_SECRET_ACCESS_KEY env = None then
        (Some (SystemExit 1), init_state resume_from_key0)
      else
        (let path_prefix = opensearch_path_prefix env;
             id_prefix = opensearch_id_prefix env
         in case (OPENSEARCH_ENDPOINT env, id_prefix, OPENSEARCH_INDEX env, path_prefix, OPENSEARCH_BUCKET env) of
              (Some endpoint, Some idp, Some index, Some pp, Some bucket) \<Rightarrow>
                (let (keys0, tr0) = list_pages bucket pp pages ([], []);
                     keys = resume_keys resume_from_key0 keys0;
                     st = audit_loop lambda_ctx es_get index idp 0 keys
                            ((init_state resume_from_key0)\<lparr>trace := tr0\<rparr>);
                     st1 = st\<lparr>trace := trace st @ result_sink format output_file sns_topic bucket (missing_keys st)\<rparr>;
                     st2 = st1\<lparr>trace := trace st1 @ reinvoke lambda_ctx st1\<rparr>
                 in (None, st2))
            | _ \<Rightarrow> (Some (SystemExit 1), init_state resume_from_key0)))"

section \<open>The indexing pipeline (\<open>parquet_file_es_indexer.py\<close>)\<close>

subsection \<open>String methods\<close>

fun startswith :: "string \<Rightarrow> string \<Rightarrow> bool" where
  "startswith s [] = True"
| "startswith [] (p # ps) = False"
| "startswith (c # cs) (p # ps) = (c = p \<and> startswith cs ps)"

text \<open>\<open>sub in s\<close> for two strings.\<close>

fun py_contains :: "string \<Rightarrow> string \<Rightarrow> bool" where
  "py_contains sub [] = (sub = [])"
| "py_contains sub (c # cs) = (startswith (c # cs) sub \<or> py_contains sub cs)"

text \<open>The characters below 256 that \<open>str.strip()\<close> removes and \<open>str.lower()\<close> changes.\<close>

definition py_isspace :: "char \<Rightarrow> bool" where
  "py_isspace c = ((of_char c :: nat) \<in> {9, 10, 11, 12, 13, 28, 29, 30, 31, 32, 133, 160})"

definition py_strip :: "string \<Rightarrow> string" where
  "py_strip s = rev (dropWhile py_isspace (rev (dropWhile py_isspace s)))"

definition py_lower_char :: "char \<Rightarrow> char" where
  "py_lower_char c =
     (let n = (of_char c :: nat) in
      if (65 \<le> n \<and> n \<le> 90) \<or> (192 \<le> n \<and> n \<le> 222 \<and> n \<noteq> 215) then char_of (n + 32) else c)"

definition py_lower :: "string \<Rightarrow> string" where
  "py_lower s = map py_lower_char s"

subsection \<open>Dictionaries in insertion order\<close>

fun dict_set :: "(string \<times> 'v) list \<Rightarrow> string \<Rightarrow> 'v \<Rightarrow> (string \<times> 'v) list" where
  "dict_set [] k v = [(k, v)]"
| "dict_set ((k', v') # d) k v = (if k' = k then (k', v) # d else (k', v') # dict_set d k v)"

text \<open>\<open>{**d, **e}\<close>: the entries of \<open>e\<close> are stored into \<open>d\<close> one by one.\<close>

fun dict_merge :: "(string \<times> 'v) list \<Rightarrow> (string \<times> 'v) list \<Rightarrow> (string \<times> 'v) list" where
  "dict_merge d [] = d"
| "dict_merge d ((k, v) # e) = dict_merge (dict_set d k v) e"

subsection \<open>The collaborators of the indexer\<close>

text \<open>
  One record of the triggering event, as \<open>S3ToSqs\<close> hands it out: \<open>get_s3_url(i)\<close> and
  \<open>get_event_name(i)\<close>.
\<close>

record s3_record =
  get_s3_url :: string
  get_event_name :: string

record s3_stat =
  stat_s3_url :: string
  to_json :: "(string \<times> json) list"

text \<open>
  The classes the indexer calls and that are not part of the audited files. A call that
  raises is \<open>None\<close> (or \<open>False\<close> for the two index operations, which return nothing the
  indexer uses).
\<close>

record collaborators =
  s3_stat_extractor_start :: "string \<Rightarrow> s3_stat option"
  aws_s3_download :: "string \<Rightarrow> string option"
  local_statistics_retriever_start :: "string \<Rightarrow> (string \<times> json) list option"
  es_index_one :: "(string \<times> json) list \<Rightarrow> string \<Rightarrow> bool"
  es_delete_by_id :: "string \<Rightarrow> bool"

datatype indexer_event =
    S3Download string
  | DelFile string
  | EsIndexOne "(string \<times> json) list" string
  | EsDeleteById string

record indexer =
  s3_url :: "string option"
  calls :: "indexer_event list"

subsection \<open>\<open>ParquetFileEsIndexer\<close>\<close>

definition extract_stats_locally :: "collaborators \<Rightarrow> string \<Rightarrow> indexer \<Rightarrow> (error + (string \<times> json) list) \<times> indexer" where
  "extract_stats_locally w url self =
     (let self1 = self\<lparr>calls := calls self @ [S3Download url]\<rparr>
      in case aws_s3_download w url of
           None \<Rightarrow> (Inl CollaboratorError, self1)
         | Some local_parquet_file_path \<Rightarrow>
             (case local_statistics_retriever_start w local_parquet_file_path of
                None \<Rightarrow> (Inl CollaboratorError, self1)
              | Some stats_json \<Rightarrow>
                  (Inr stats_json, self1\<lparr>calls := calls self1 @ [DelFile local_parquet_file_path]\<rparr>)))"

definition ingest_file :: "collaborators \<Rightarrow> indexer \<Rightarrow> error option \<times> indexer" where
  "ingest_file w self =
     (case s3_url self of
        None \<Rightarrow> (Some (ValueError ''s3 url is null. Set it first''), self)
      | Some url \<Rightarrow>
          (case s3_stat_extractor_start w url of
             None \<Rightarrow> (Some CollaboratorError, self)
           | Some s3_stat \<Rightarrow>
               (case extract_stats_locally w url self of
                  (Inl e, self1) \<Rightarrow> (Some e, self1)
                | (Inr parquet_stat, self1) \<Rightarrow>
                    (let doc = dict_merge (dict_merge [(''s3_url'', JString url)] (to_json s3_stat)) parquet_stat;
                         self2 = self1\<lparr>calls := calls self1 @ [EsIndexOne doc (stat_s3_url s3_stat)]\<rparr>
                     in if es_index_one w doc (stat_s3_url s3_stat) then (None, self2)
                        else (Some CollaboratorError, self2)))))"

definition remove_file :: "collaborators \<Rightarrow> indexer \<Rightarrow> error option \<times> indexer" where
  "remove_file w self =
     (case s3_url self of
        None \<Rightarrow> (Some (ValueError ''s3 url is null. Set it first''), self)
      | Some url \<Rightarrow>
          (let self1 = self\<lparr>calls := calls self @ [EsDeleteById url]\<rparr>
           in if es_delete_by_id w url then (None, self1) else (Some CollaboratorError, self1)))"

definition ignoring_phrases :: "string list" where
  "ignoring_phrases = [''spark-staging'', ''_temporary'']"

text \<open>
  \<open>start\<close>: the loop over the records of the event. An exception of \<open>ingest_file\<close> or
  \<open>remove_file\<close> is not caught and ends the loop.
\<close>

fun start :: "collaborators \<Rightarrow> s3_record list \<Rightarrow> indexer \<Rightarrow> error option \<times> indexer" where
  "start w [] self = (None, self)"
| "start w (r # rs) self =
     (let self1 = self\<lparr>s3_url := Some (get_s3_url r)\<rparr>
      in if list_ex (\<lambda>k. py_contains k (get_s3_url r)) ignoring_phrases then start w rs self1
         else
           (let s3_event = py_lower (py_strip (get_event_name r))
            in if startswith s3_event ''objectcreated'' then
                 (case ingest_file w self1 of
                    (Some e, self2) \<Rightarrow> (Some e, self2)
                  | (None, self2) \<Rightarrow> start w rs self2)
               else if startswith s3_event ''objectremoved'' then
                 (case remove_file w self1 of
                    (Some e, self2) \<Rightarrow> (Some e, self2)
                  | (None, self2) \<Rightarrow> start w rs self2)
               else start w rs self1))"

section \<open>The authenticator (\<open>authenticator_aws_secret_manager.py\<close>)\<close>

text \<open>
  The field \<open>__token\<close> holds whatever the secret's JSON document has under its key, which
  need not be a string. A value of the input dictionary is a string or something else.
\<close>

record authenticator =
  token :: json

datatype header = HStr string | HOther

definition authenticator_init :: authenticator where
  "authenticator_init = \<lparr>token = JString []\<rparr>"

text \<open>\<open>j[k]\<close> and \<open>k in j\<close> for a parsed JSON value \<open>j\<close> and a string \<open>k\<close>.\<close>

definition py_getitem :: "json \<Rightarrow> string \<Rightarrow> error + json" where
  "py_getitem j k =
     (case j of
        JObject kvs \<Rightarrow> (case map_of kvs k of None \<Rightarrow> Inl (KeyError k) | Some v \<Rightarrow> Inr v)
      | _ \<Rightarrow> Inl TypeError)"

definition py_in :: "string \<Rightarrow> json \<Rightarrow> error + bool" where
  "py_in k j =
     (case j of
        JObject kvs \<Rightarrow> Inr (k \<in> set (map fst kvs))
      | JArray xs \<Rightarrow> Inr (JString k \<in> set xs)
      | JString s \<Rightarrow> Inr (py_contains k s)
      | _ \<Rightarrow> Inl TypeError)"

text \<open>
  \<open>get_auth_credentials\<close>. The secret manager's \<open>get_secret\<close>, \<open>json.loads\<close> and the
  built-in \<open>str\<close>, which formats the parsed document in the second error message, are
  parameters. A call of \<open>get_secret\<close> that raises is \<open>Inl\<close> with the text of the exception,
  a call of \<open>json.loads\<close> that raises is \<open>None\<close>.
\<close>

definition get_auth_credentials :: "(string \<Rightarrow> string + string) \<Rightarrow> (string \<Rightarrow> json option) \<Rightarrow> (json \<Rightarrow> string) \<Rightarrow> authenticator \<Rightarrow> string \<Rightarrow> (error + json) \<times> authenticator" where
  "get_auth_credentials get_secret json_loads py_str self cred_name =
     (case get_secret cred_name of
        Inl cause \<Rightarrow>
          (Inl (ValueError (''error while retrieving secret manager value: '' @ cred_name @
                            ''. cause: '' @ cause)), self)
      | Inr token_str \<Rightarrow>
          (case json_loads token_str of
             None \<Rightarrow> (Inl JSONDecodeError, self)
           | Some j \<Rightarrow>
               (case py_getitem j ''auth_cred'' of
                  Inl e \<Rightarrow> (Inl e, self)
                | Inr secret_json \<Rightarrow>
                    (case py_in ''auth_cred'' secret_json of
                       Inl e \<Rightarrow> (Inl e, self)
                     | Inr present \<Rightarrow>
                         if \<not> present then
                           (Inl (ValueError (''invalid json. missing auth_cred. '' @ py_str secret_json)), self)
                         else
                           (case py_getitem secret_json ''auth_cred'' of
                              Inl e \<Rightarrow> (Inl e, self)
                            | Inr t \<Rightarrow> (Inr secret_json, self\<lparr>token := t\<rparr>))))))"

text \<open>
  \<open>authenticate\<close>. The parameter \<open>b64decode\<close> stands for
  \<open>base64.standard_b64decode(v.encode()).decode()\<close> on a string \<open>v\<close>, \<open>None\<close> when one of
  the three calls raises; on a value that is not a string the call of \<open>encode\<close> raises.
  The bare \<open>except\<close> catches either.
\<close>

definition authenticate :: "(string \<Rightarrow> string option) \<Rightarrow> authenticator \<Rightarrow> (string \<Rightarrow> header option) \<Rightarrow> (error + string option) \<times> authenticator" where
  "authenticate b64decode self input_auth_cred =
     (case input_auth_cred ''Authorization'' of
        None \<Rightarrow> (Inr (Some ''missing key: Authorization''), self)
      | Some v \<Rightarrow>
          (case (case v of HStr s \<Rightarrow> b64decode s | HOther \<Rightarrow> None) of
             None \<Rightarrow> (Inr (Some ''unable to base64 decode the value from Authorization''), self)
           | Some input_auth_value \<Rightarrow>
               if JString input_auth_value \<noteq> token self
               then (Inr (Some ''mismatch incoming base64 token vs existing token''), self)
               else (Inr None, self)))"

section \<open>Vocabulary of the statements\<close>

text \<open>
  The lookup outcomes after which the loop appends the key to \<open>missing_keys\<close>: the three
  returned values that pass the test of line 170, and \<open>NotFoundError\<close>.
\<close>

fun reported_missing :: "es_outcome \<Rightarrow> bool" where
  "reported_missing (Returns RespNone) = True"
| "reported_missing (Returns RespNotDict) = True"
| "reported_missing (Returns (RespDict None)) = False"
| "reported_missing (Returns (RespDict (Some found))) = (\<not> found)"
| "reported_missing RaisesNotFoundError = True"
| "reported_missing RaisesException = False"

text \<open>
  The lookup outcomes after which the loop only adds one to \<open>error_count\<close>: an exception
  other than \<open>NotFoundError\<close>, raised by the lookup or by reading the \<open>found\<close> entry of a
  dictionary that has none.
\<close>

fun counted_only :: "es_outcome \<Rightarrow> bool" where
  "counted_only (Returns RespNone) = False"
| "counted_only (Returns RespNotDict) = False"
| "counted_only (Returns (RespDict None)) = True"
| "counted_only (Returns (RespDict (Some found))) = False"
| "counted_only RaisesNotFoundError = False"
| "counted_only RaisesException = True"

text \<open>
  The number of items the loop handles before it ends: all of them, or those before the
  first time check that reads less than 60 seconds.
\<close>

fun processed :: "lambda_context option \<Rightarrow> nat \<Rightarrow> 'a list \<Rightarrow> nat" where
  "processed lambda_ctx n [] = 0"
| "processed lambda_ctx n (x # xs) =
     (if about_to_time_out lambda_ctx n then 0 else Suc (processed lambda_ctx (Suc n) xs))"

text \<open>
  An environment that passes the two checks of lines 81 and 92, with the index, the
  normalised path prefix, the bucket and the normalised document-id prefix it gives.
\<close>

definition configured :: "environ \<Rightarrow> string \<Rightarrow> string \<Rightarrow> string \<Rightarrow> string \<Rightarrow> bool" where
  "configured env index pp bucket idp =
     (AWS_ACCESS_KEY_ID env \<noteq> None \<and> AWS_SECRET_ACCESS_KEY env \<noteq> None \<and>
      OPENSEARCH_ENDPOINT env \<noteq> None \<and> OPENSEARCH_INDEX env = Some index \<and>
      opensearch_path_prefix env = Some pp \<and> OPENSEARCH_BUCKET env = Some bucket \<and>
      opensearch_id_prefix env = Some idp)"

text \<open>The payload of the re-invocation and the body of a queue message, written out.\<close>

definition resume_payload :: "string \<Rightarrow> string" where
  "resume_payload k = ''{'' @ json_string ''ResumeFromKey'' @ '': '' @ json_string k @ ''}''"

definition reconcile_message :: "string \<Rightarrow> string \<Rightarrow> string" where
  "reconcile_message bucket key =
     ''{'' @ json_string ''Records'' @ '': [{'' @ json_string ''eventName'' @ '': '' @
     json_string ''ObjectCreated:Put'' @ '', '' @ json_string ''s3'' @ '': {'' @
     json_string ''bucket'' @ '': {'' @ json_string ''name'' @ '': '' @ json_string bucket @ ''}, '' @
     json_string ''object'' @ '': {'' @ json_string ''key'' @ '': '' @ json_string key @ ''}}}]}''"

definition ends_with_slash :: "string \<Rightarrow> bool" where
  "ends_with_slash s = (s \<noteq> [] \<and> last s = CHR ''/'')"

text \<open>
  A lookup that reflects a catalog, given as the set of its document ids: a present
  document is returned with its \<open>found\<close> flag set, an absent one raises \<open>NotFoundError\<close> or is
  returned with the flag unset. And the ids looked up by a run, read from its trace.
\<close>

definition catalog_answer :: "string set \<Rightarrow> string \<Rightarrow> es_outcome \<Rightarrow> bool" where
  "catalog_answer catalog doc_id out =
     (if doc_id \<in> catalog then out = Returns (RespDict (Some True))
      else out = RaisesNotFoundError \<or> out = Returns (RespDict (Some False)))"

fun es_ids :: "event list \<Rightarrow> string list" where
  "es_ids [] = []"
| "es_ids (EsGet index doc_id # evs) = doc_id # es_ids evs"
| "es_ids (ev # evs) = es_ids evs"

text \<open>
  The queue messages and the notifications of a run, read from its trace; the JSON value
  that \<open>key_to_sqs_msg\<close> serialises; and the text of the summary notification.
\<close>

fun sqs_sent :: "event list \<Rightarrow> (string option \<times> string) list" where
  "sqs_sent [] = []"
| "sqs_sent (SqsSendMessage queue body # evs) = (queue, body) # sqs_sent evs"
| "sqs_sent (ev # evs) = sqs_sent evs"

fun sns_published :: "event list \<Rightarrow> (string \<times> string \<times> string) list" where
  "sns_published [] = []"
| "sns_published (SnsPublish topic message subject # evs) = (topic, message, subject) # sns_published evs"
| "sns_published (ev # evs) = sns_published evs"

definition reconcile_event :: "string \<Rightarrow> string \<Rightarrow> json" where
  "reconcile_event bucket key =
     JObject [(''Records'',
       JArray [JObject [
         (''eventName'', JString ''ObjectCreated:Put''),
         (''s3'', JObject [
            (''bucket'', JObject [(''name'', JString bucket)]),
            (''object'', JObject [(''key'', JString key)])])]])]"

definition summary_message :: "nat \<Rightarrow> string" where
  "summary_message n =
     ''Parquet stats audit found '' @ py_format_comma n @ '' missing keys. Trying to republish to SQS.''"

text \<open>
  For the indexer: a URL that holds one of the two ignored phrases, the event name of a
  record after \<open>strip\<close> and \<open>lower\<close>, and the calls one record gives rise to when the
  collaborators return (\<open>stat\<close>, \<open>path\<close> and \<open>stats\<close> are what the stat extractor, the
  download and the statistics retriever return).
\<close>

definition ignored :: "string \<Rightarrow> bool" where
  "ignored url = (py_contains ''spark-staging'' url \<or> py_contains ''_temporary'' url)"

definition normalized_event :: "s3_record \<Rightarrow> string" where
  "normalized_event r = py_lower (py_strip (get_event_name r))"

definition record_calls ::
  "(string \<Rightarrow> s3_stat) \<Rightarrow> (string \<Rightarrow> string) \<Rightarrow> (string \<Rightarrow> (string \<times> json) list) \<Rightarrow> s3_record \<Rightarrow> indexer_event list" where
  "record_calls stat path stats r =
     (if ignored (get_s3_url r) then []
      else if startswith (normalized_event r) ''objectcreated'' then
        [S3Download (get_s3_url r), DelFile (path (get_s3_url r)),
         EsIndexOne (dict_merge (dict_merge [(''s3_url'', JString (get_s3_url r))]
                                   (to_json (stat (get_s3_url r))))
                                (stats (path (get_s3_url r))))
                    (stat_s3_url (stat (get_s3_url r)))]
      else if startswith (normalized_event r) ''objectremoved'' then [EsDeleteById (get_s3_url r)]
      else [])"

section \<open>Example inputs\<close>

definition env0 :: environ where
  "env0 = \<lparr>AWS_ACCESS_KEY_ID = Some ''id'', AWS_SECRET_ACCESS_KEY = Some ''secret'',
            AWS_SESSION_TOKEN = None, OPENSEARCH_ENDPOINT = Some ''es.example'',
            OPENSEARCH_PORT = None, OPENSEARCH_INDEX = Some ''idx'',
            OPENSEARCH_PATH_PREFIX = Some [], OPENSEARCH_BUCKET = Some ''bkt'',
            OPENSEARCH_ID_PREFIX = None\<rparr>"

definition obj :: "string \<Rightarrow> s3_object" where
  "obj k = \<lparr>Key = k, Size = 1\<rparr>"

definition abcd :: "page list" where
  "abcd = [Some [obj ''a'', obj ''b''], None, Some [obj ''c'', obj ''d'']]"

text \<open>A catalog that holds the document of \<open>b\<close> only.\<close>

definition only_b :: "string \<Rightarrow> string \<Rightarrow> es_outcome" where
  "only_b index doc_id =
     (if doc_id = ''s3://bkt/b'' then Returns (RespDict (Some True)) else RaisesNotFoundError)"

text \<open>A host whose clock reads 100 seconds at the first check and 30 seconds less at each next one.\<close>

definition ctx0 :: lambda_context where
  "ctx0 = \<lparr>function_name = ''audit_fn'', remaining_time_in_millis = (\<lambda>n. 100000 - 30000 * int n)\<rparr>"

text \<open>
  A catalog every lookup of which raises an exception other than \<open>NotFoundError\<close>, and the
  environment \<open>env0\<close> with the document-id prefix set to the empty string.
\<close>

definition unreachable_catalog :: "string \<Rightarrow> string \<Rightarrow> es_outcome" where
  "unreachable_catalog index doc_id = RaisesException"

definition env_empty_prefix :: environ where
  "env_empty_prefix = env0\<lparr>OPENSEARCH_ID_PREFIX := Some []\<rparr>"

text \<open>
  A catalog whose lookup raises an exception other than \<open>NotFoundError\<close> for \<open>a\<close>, finds
  \<open>b\<close>, raises \<open>NotFoundError\<close> for \<open>c\<close> and returns something that is not a dictionary for
  every other document.
\<close>

definition flaky_catalog :: "string \<Rightarrow> string \<Rightarrow> es_outcome" where
  "flaky_catalog index doc_id =
     (if doc_id = ''s3://bkt/a'' then RaisesException
      else if doc_id = ''s3://bkt/b'' then Returns (RespDict (Some True))
      else if doc_id = ''s3://bkt/c'' then RaisesNotFoundError
      else Returns RespNotDict)"

text \<open>
  For the authenticator: a decoder that knows the encoding of \<open>tok\<close> and of the empty string,
  a secret manager with one secret, the parsed document of that secret, and a stand-in for
  \<open>str\<close>.
\<close>

definition toy_b64decode :: "string \<Rightarrow> string option" where
  "toy_b64decode v = (if v = ''dG9r'' then Some ''tok'' else if v = [] then Some [] else None)"

definition secret_store :: "string \<Rightarrow> string + string" where
  "secret_store cred_name = (if cred_name = ''cdms'' then Inr ''nested'' else Inl ''no such secret'')"

definition toy_py_str :: "json \<Rightarrow> string" where
  "toy_py_str j = ''{}''"

definition toy_json_loads :: "string \<Rightarrow> json option" where
  "toy_json_loads s =
     (if s = ''nested'' then Some (JObject [(''auth_cred'', JObject [(''auth_cred'', JString ''tok'')])])
      else None)"

text \<open>
  For the indexer: collaborators that always return, and an event with a temporary file,
  a created file, a removed file and an event of another kind.
\<close>

definition world0 :: collaborators where
  "world0 = \<lparr>s3_stat_extractor_start = (\<lambda>url. Some \<lparr>stat_s3_url = url, to_json = [(''size'', JNumber 7)]\<rparr>),
             aws_s3_download = (\<lambda>url. Some ''/tmp/file.parquet''),
             local_statistics_retriever_start = (\<lambda>p. Some [(''total'', JNumber 3)]),
             es_index_one = (\<lambda>doc doc_id. True),
             es_delete_by_id = (\<lambda>doc_id. True)\<rparr>"

definition event0 :: "s3_record list" where
  "event0 =
     [\<lparr>get_s3_url = ''s3://bkt/x/_temporary/0/f.parquet'', get_event_name = ''ObjectCreated:Put''\<rparr>,
      \<lparr>get_s3_url = ''s3://bkt/x/f.parquet'', get_event_name = '' ObjectCreated:Put ''\<rparr>,
      \<lparr>get_s3_url = ''s3://bkt/x/g.parquet'', get_event_name = ''ObjectRemoved:Delete''\<rparr>,
      \<lparr>get_s3_url = ''s3://bkt/x/h.parquet'', get_event_name = ''ObjectRestore:Post''\<rparr>]"

section \<open>Properties of the models\<close>

lemma check_key_missing:
  "missing_keys (check_key es_get index idp ob st) =
     missing_keys st @ (if reported_missing (es_get index (idp @ Key ob)) then [Key ob] else [])"
  by (simp add: check_key_def record_missing_def Let_def
        split: es_outcome.split es_response.split option.split)

lemma check_key_trace:
  "trace (check_key es_get index idp ob st) = trace st @ [EsGet index (idp @ Key ob)]"
  by (simp add: check_key_def record_missing_def Let_def
        split: es_outcome.split es_response.split option.split)

lemma check_key_count: "count (check_key es_get index idp ob st) = count st"
  by (simp add: check_key_def record_missing_def Let_def
        split: es_outcome.split es_response.split option.split)

lemma check_key_resume:
  "need_to_resume (check_key es_get index idp ob st) = need_to_resume st"
  "resume_from_key (check_key es_get index idp ob st) = resume_from_key st"
  by (simp_all add: check_key_def record_missing_def Let_def
        split: es_outcome.split es_response.split option.split)

lemma check_key_error_count:
  "error_count (check_key es_get index idp ob st) =
     error_count st + (if reported_missing (es_get index (idp @ Key ob)) then 1 else 0)
                    + (if counted_only (es_get index (idp @ Key ob)) then 1 else 0)"
  by (simp add: check_key_def record_missing_def Let_def
        split: es_outcome.split es_response.split option.split)

lemma audit_loop_error_count:
  "error_count (audit_loop ctx es_get index idp n keys st) =
     error_count st
     + length (filter (\<lambda>ob. reported_missing (es_get index (idp @ Key ob))) (take (processed ctx n keys) keys))
     + length (filter (\<lambda>ob. counted_only (es_get index (idp @ Key ob))) (take (processed ctx n keys) keys))"
  by (induction keys arbitrary: n st) (simp_all add: check_key_error_count)

lemma audit_loop_count:
  "count (audit_loop ctx es_get index idp n keys st) = count st + processed ctx n keys"
  by (induction keys arbitrary: n st) (simp_all add: check_key_count)

lemma audit_loop_trace:
  "trace (audit_loop ctx es_get index idp n keys st) =
     trace st @ map (\<lambda>ob. EsGet index (idp @ Key ob)) (take (processed ctx n keys) keys)"
  by (induction keys arbitrary: n st) (simp_all add: check_key_trace)

lemma audit_loop_missing:
  "missing_keys (audit_loop ctx es_get index idp n keys st) =
     missing_keys st @ map Key (filter (\<lambda>ob. reported_missing (es_get index (idp @ Key ob)))
                                   (take (processed ctx n keys) keys))"
  by (induction keys arbitrary: n st) (simp_all add: check_key_missing)

lemma audit_loop_need_to_resume:
  "need_to_resume (audit_loop ctx es_get index idp n keys st) =
     (need_to_resume st \<or> processed ctx n keys < length keys)"
  by (induction keys arbitrary: n st) (simp_all add: check_key_resume)

lemma audit_loop_resume_from_key:
  "resume_from_key (audit_loop ctx es_get index idp n keys st) =
     (if processed ctx n keys < length keys then Some (Key (keys ! processed ctx n keys))
      else resume_from_key st)"
  by (induction keys arbitrary: n st) (simp_all add: check_key_resume)

lemma processed_le: "processed ctx n keys \<le> length keys"
  by (induction keys arbitrary: n) simp_all

lemma processed_None: "processed None n keys = length keys"
  by (induction keys arbitrary: n) (simp_all add: about_to_time_out_def)

lemma processed_all:
  "(\<And>j. j < length keys \<Longrightarrow> \<not> about_to_time_out ctx (n + j)) \<Longrightarrow> processed ctx n keys = length keys"
proof (induction keys arbitrary: n)
  case Nil
  then show ?case by simp
next
  case (Cons x xs)
  from Cons.prems [of 0] have h0: "\<not> about_to_time_out ctx n" by simp
  have "processed ctx (Suc n) xs = length xs"
  proof (rule Cons.IH)
    fix j assume "j < length xs"
    then show "\<not> about_to_time_out ctx (Suc n + j)" using Cons.prems [of "Suc j"] by simp
  qed
  with h0 show ?case by simp
qed

lemma processed_first:
  "i < length keys \<Longrightarrow> about_to_time_out ctx (n + i) \<Longrightarrow>
   (\<And>j. j < i \<Longrightarrow> \<not> about_to_time_out ctx (n + j)) \<Longrightarrow> processed ctx n keys = i"
proof (induction keys arbitrary: n i)
  case Nil
  then show ?case by simp
next
  case (Cons x xs)
  show ?case
  proof (cases i)
    case 0
    with Cons.prems show ?thesis by simp
  next
    case (Suc k)
    from Cons.prems(3) [of 0] Suc have h0: "\<not> about_to_time_out ctx n" by simp
    have "processed ctx (Suc n) xs = k"
    proof (rule Cons.IH)
      show "k < length xs" using Cons.prems(1) Suc by simp
      show "about_to_time_out ctx (Suc n + k)" using Cons.prems(2) Suc by simp
      fix j assume "j < k"
      then show "\<not> about_to_time_out ctx (Suc n + j)" using Cons.prems(3) [of "Suc j"] Suc by simp
    qed
    with h0 Suc show ?thesis by simp
  qed
qed

lemma list_pages_eq:
  "list_pages bucket pp pages (keys, tr) =
     (keys @ concat (map page_contents pages), tr @ map (\<lambda>p. S3ListPage bucket pp) pages)"
  by (induction pages arbitrary: keys tr) simp_all

lemma audit_configured:
  assumes cfg: "configured env index pp bucket idp"
    and sink: "\<not> (format = ''mock-s3'' \<and> \<not> truthy output_file)"
  shows "audit env pages es_get format output_file sns_topic r ctx =
     (let keys = resume_keys r (concat (map page_contents pages));
          st = audit_loop ctx es_get index idp 0 keys
                 ((init_state r)\<lparr>trace := map (\<lambda>p. S3ListPage bucket pp) pages\<rparr>);
          st1 = st\<lparr>trace := trace st @ result_sink format output_file sns_topic bucket (missing_keys st)\<rparr>
      in (None, st1\<lparr>trace := trace st1 @ reinvoke ctx st1\<rparr>))"
proof -
  from cfg obtain a s e where
    "AWS_ACCESS_KEY_ID env = Some a" "AWS_SECRET_ACCESS_KEY env = Some s"
    "OPENSEARCH_ENDPOINT env = Some e" "OPENSEARCH_INDEX env = Some index"
    "opensearch_path_prefix env = Some pp" "OPENSEARCH_BUCKET env = Some bucket"
    "opensearch_id_prefix env = Some idp"
    by (auto simp: configured_def)
  with sink show ?thesis
    by (simp add: audit_def Let_def list_pages_eq)
qed

lemma audit_fst:
  "configured env index pp bucket idp \<Longrightarrow> \<not> (format = ''mock-s3'' \<and> \<not> truthy output_file) \<Longrightarrow>
   fst (audit env pages es_get format output_file sns_topic r ctx) = None"
  by (simp add: audit_configured Let_def)

lemma audit_missing:
  "configured env index pp bucket idp \<Longrightarrow> \<not> (format = ''mock-s3'' \<and> \<not> truthy output_file) \<Longrightarrow>
   missing_keys (snd (audit env pages es_get format output_file sns_topic r ctx)) =
     map Key (filter (\<lambda>ob. reported_missing (es_get index (idp @ Key ob)))
               (take (processed ctx 0 (resume_keys r (concat (map page_contents pages))))
                     (resume_keys r (concat (map page_contents pages)))))"
  by (simp add: audit_configured Let_def audit_loop_missing init_state_def)

lemma audit_count:
  "configured env index pp bucket idp \<Longrightarrow> \<not> (format = ''mock-s3'' \<and> \<not> truthy output_file) \<Longrightarrow>
   count (snd (audit env pages es_get format output_file sns_topic r ctx)) =
     processed ctx 0 (resume_keys r (concat (map page_contents pages)))"
  by (simp add: audit_configured Let_def audit_loop_count init_state_def)

lemma audit_error_count:
  "configured env index pp bucket idp \<Longrightarrow> \<not> (format = ''mock-s3'' \<and> \<not> truthy output_file) \<Longrightarrow>
   error_count (snd (audit env pages es_get format output_file sns_topic r ctx)) =
     length (filter (\<lambda>ob. reported_missing (es_get index (idp @ Key ob)))
               (take (processed ctx 0 (resume_keys r (concat (map page_contents pages))))
                     (resume_keys r (concat (map page_contents pages)))))
     + length (filter (\<lambda>ob. counted_only (es_get index (idp @ Key ob)))
               (take (processed ctx 0 (resume_keys r (concat (map page_contents pages))))
                     (resume_keys r (concat (map page_contents pages)))))"
  by (simp add: audit_configured Let_def audit_loop_error_count init_state_def)

lemma reinvoke_loop:
  "\<not> need_to_resume st0 \<Longrightarrow>
   reinvoke ctx ((audit_loop ctx es_get index idp 0 keys st0)\<lparr>trace := tr'\<rparr>) =
     (case ctx of
        None \<Rightarrow> []
      | Some c \<Rightarrow>
          if processed ctx 0 keys < length keys
          then [LambdaInvoke (function_name c) ''Event'' (resume_payload (Key (keys ! processed ctx 0 keys)))]
          else [])"
  by (simp add: reinvoke_def audit_loop_need_to_resume audit_loop_resume_from_key
        resume_payload_def processed_None split: option.split)

lemma audit_trace:
  assumes "configured env index pp bucket idp"
    and "\<not> (format = ''mock-s3'' \<and> \<not> truthy output_file)"
    and keys: "keys = resume_keys r (concat (map page_contents pages))"
  shows "trace (snd (audit env pages es_get format output_file sns_topic r ctx)) =
     map (\<lambda>p. S3ListPage bucket pp) pages @
     map (\<lambda>ob. EsGet index (idp @ Key ob)) (take (processed ctx 0 keys) keys) @
     result_sink format output_file sns_topic bucket
       (missing_keys (snd (audit env pages es_get format output_file sns_topic r ctx))) @
     (case ctx of
        None \<Rightarrow> []
      | Some c \<Rightarrow>
          if processed ctx 0 keys < length keys
          then [LambdaInvoke (function_name c) ''Event'' (resume_payload (Key (keys ! processed ctx 0 keys)))]
          else [])"
  unfolding keys using assms(1,2)
  by (simp add: audit_configured Let_def reinvoke_loop audit_loop_trace init_state_def)

lemma configured_env0: "configured env0 ''idx'' [] ''bkt'' ''s3://bkt/''"
  by (simp add: configured_def env0_def opensearch_path_prefix_def opensearch_id_prefix_def
        append_slash_def py_format_def)

lemma key_to_sqs_msg_eq: "key_to_sqs_msg key bucket = reconcile_message bucket key"
  by (simp add: key_to_sqs_msg_def reconcile_message_def)

lemma es_ids_append: "es_ids (xs @ ys) = es_ids xs @ es_ids ys"
  by (induction xs rule: es_ids.induct) simp_all

lemma es_ids_list: "es_ids (map (\<lambda>p. S3ListPage b pp) pages) = []"
  by (induction pages) simp_all

lemma es_ids_gets: "es_ids (map (\<lambda>ob. EsGet index (f ob)) xs) = map f xs"
  by (induction xs) simp_all

lemma es_ids_sqs: "es_ids (map (\<lambda>k. SqsSendMessage q (f k)) ms) = []"
  by (induction ms) simp_all

lemma es_ids_sink: "es_ids (result_sink format output_file sns_topic bucket ms) = []"
  by (simp add: result_sink_def es_ids_append es_ids_sqs Let_def comp_def split: option.split)

lemma resume_keys_None: "resume_keys None keys = keys"
  by (simp add: resume_keys_def)

lemma audit_es_ids:
  assumes "configured env index pp bucket idp"
    and "\<not> (format = ''mock-s3'' \<and> \<not> truthy output_file)"
    and keys: "keys = resume_keys r (concat (map page_contents pages))"
  shows "es_ids (trace (snd (audit env pages es_get format output_file sns_topic r ctx))) =
           map (\<lambda>ob. idp @ Key ob) (take (processed ctx 0 keys) keys)"
  by (simp add: audit_trace [OF assms] es_ids_append es_ids_list es_ids_gets es_ids_sink
        split: option.split)

lemma count_list_map_filter:
  "distinct (map f xs) \<Longrightarrow> x \<in> set xs \<Longrightarrow>
   count_list (map f (filter P xs)) (f x) = (if P x then 1 else 0)"
proof (induction xs)
  case Nil
  then show ?case by simp
next
  case (Cons y ys)
  have notin: "f y \<notin> set (map f (filter P ys))" using Cons.prems(1) by auto
  show ?case
  proof (cases "x = y")
    case True
    with notin show ?thesis by (simp add: count_list_0_iff)
  next
    case False
    with Cons.prems have xin: "x \<in> set ys" and neq: "f y \<noteq> f x" by auto
    with Cons.IH Cons.prems(1) show ?thesis by simp
  qed
qed

lemma resume_keys_ignored: "resume_keys r keys = keys"
  by (auto simp: resume_keys_def split: option.split)

lemma audit_resume_from_key:
  "configured env index pp bucket idp \<Longrightarrow> \<not> (format = ''mock-s3'' \<and> \<not> truthy output_file) \<Longrightarrow>
   processed ctx 0 (resume_keys r (concat (map page_contents pages)))
     < length (resume_keys r (concat (map page_contents pages))) \<Longrightarrow>
   resume_from_key (snd (audit env pages es_get format output_file sns_topic r ctx)) =
     Some (Key (resume_keys r (concat (map page_contents pages)) !
                processed ctx 0 (resume_keys r (concat (map page_contents pages)))))"
  by (simp add: audit_configured Let_def audit_loop_resume_from_key init_state_def)

lemma set_resume_keys: "set (resume_keys r keys) \<subseteq> set keys"
  by (simp add: resume_keys_def Let_def set_drop_subset)

lemma append_slash_Some:
  "append_slash (Some s) = Some (if s = [] then [] else if last s \<noteq> CHR ''/'' then s @ ''/'' else s)"
  by (simp add: append_slash_def)

lemma configured_env_empty_prefix: "configured env_empty_prefix ''idx'' [] ''bkt'' []"
  by (simp add: configured_def env_empty_prefix_def env0_def opensearch_path_prefix_def
        opensearch_id_prefix_def append_slash_def)

lemma sqs_sent_append: "sqs_sent (xs @ ys) = sqs_sent xs @ sqs_sent ys"
  by (induction xs rule: sqs_sent.induct) simp_all

lemma sns_published_append: "sns_published (xs @ ys) = sns_published xs @ sns_published ys"
  by (induction xs rule: sns_published.induct) simp_all

lemma sqs_sent_list: "sqs_sent (map (\<lambda>p. S3ListPage b pp) pages) = []"
  by (induction pages) simp_all

lemma sns_published_list: "sns_published (map (\<lambda>p. S3ListPage b pp) pages) = []"
  by (induction pages) simp_all

lemma sqs_sent_gets: "sqs_sent (map (\<lambda>ob. EsGet index (f ob)) xs) = []"
  by (induction xs) simp_all

lemma sns_published_gets: "sns_published (map (\<lambda>ob. EsGet index (f ob)) xs) = []"
  by (induction xs) simp_all

lemma sqs_sent_sends: "sqs_sent (map (\<lambda>k. SqsSendMessage q (f k)) ms) = map (\<lambda>k. (q, f k)) ms"
  by (induction ms) simp_all

lemma sns_published_sends: "sns_published (map (\<lambda>k. SqsSendMessage q (f k)) ms) = []"
  by (induction ms) simp_all

lemma result_sink_requeue:
  "format \<noteq> ''plain'' \<Longrightarrow>
   result_sink format output_file sns_topic bucket ms =
     map (\<lambda>k. SqsSendMessage output_file (reconcile_message bucket k)) ms @
     (case sns_topic of
        None \<Rightarrow> []
      | Some t \<Rightarrow> if t = [] then [] else [SnsPublish t (summary_message (length ms)) ''Insitu audit''])"
  by (simp add: result_sink_def key_to_sqs_msg_eq comp_def summary_message_def split: option.split)

lemma get_auth_credentials_failure:
  "get_auth_credentials get_secret json_loads py_str self cred_name = (Inl e, self') \<Longrightarrow> self' = self"
  by (auto simp: get_auth_credentials_def split: option.splits sum.splits if_splits)

lemma get_auth_credentials_success:
  "get_auth_credentials get_secret json_loads py_str self cred_name = (Inr secret_json, self') \<Longrightarrow>
   py_getitem secret_json ''auth_cred'' = Inr (token self')"
  by (auto simp: get_auth_credentials_def split: option.splits sum.splits if_splits)

lemma ignoring_phrases_ignored:
  "list_ex (\<lambda>k. py_contains k url) ignoring_phrases = ignored url"
  by (simp add: ignoring_phrases_def ignored_def)

lemma ingest_file_returns:
  assumes "s3_url self = Some url"
    and "s3_stat_extractor_start w url = Some st"
    and "aws_s3_download w url = Some p"
    and "local_statistics_retriever_start w p = Some ps"
    and "es_index_one w (dict_merge (dict_merge [(''s3_url'', JString url)] (to_json st)) ps) (stat_s3_url st)"
  shows "ingest_file w self =
           (None, self\<lparr>calls := calls self @
              [S3Download url, DelFile p,
               EsIndexOne (dict_merge (dict_merge [(''s3_url'', JString url)] (to_json st)) ps)
                          (stat_s3_url st)]\<rparr>)"
  using assms by (simp add: ingest_file_def extract_stats_locally_def Let_def)

lemma remove_file_returns:
  assumes "s3_url self = Some url" and "es_delete_by_id w url"
  shows "remove_file w self = (None, self\<lparr>calls := calls self @ [EsDeleteById url]\<rparr>)"
  using assms by (simp add: remove_file_def Let_def)

section \<open>The claims\<close>

text \<open>
  C5. In requeue mode (format \<open>mock-s3\<close>) with no destination, \<open>audit\<close> raises
  \<open>ValueError\<close> before anything else: no page of the store is listed, no catalog lookup
  is made, and no other call leaves the process.
\<close>

theorem audit_requeue_without_destination_fails_first:
  assumes "\<not> truthy output_file"
  shows "audit env pages es_get ''mock-s3'' output_file sns_topic r ctx =
           (Some (ValueError ''Output file MUST be defined with mock-s3 output format''), init_state r)
         \<and> trace (snd (audit env pages es_get ''mock-s3'' output_file sns_topic r ctx)) = []"
  using assms by (simp add: audit_def init_state_def)

theorem audit_requeue_without_destination_fails_first_witness:
  "fst (audit env0 abcd only_b ''mock-s3'' None (Some ''topic'') None None) =
     Some (ValueError ''Output file MUST be defined with mock-s3 output format'')
   \<and> trace (snd (audit env0 abcd only_b ''mock-s3'' None (Some ''topic'') None None)) = []"
proof -
  have h: "\<not> truthy None" by (simp add: truthy_def)
  show ?thesis
    using audit_requeue_without_destination_fails_first [OF h, of env0 abcd only_b "Some ''topic''" None None]
    by (simp add: init_state_def)
qed

text \<open>
  C1. A run with no resume cursor and no host context, on a catalog whose lookups answer
  for the set of documents it holds, returns normally with \<open>missing_keys\<close> equal to the
  listed keys whose document is absent, in listing order; in report mode with a
  destination file the run lists the pages, looks every key up, and writes the file with
  exactly those keys, each followed by a newline.
\<close>

theorem audit_uninterrupted_missing_keys:
  assumes cfg: "configured env index pp bucket idp"
    and sink: "\<not> (format = ''mock-s3'' \<and> \<not> truthy output_file)"
    and cat: "\<forall>ob \<in> set (concat (map page_contents pages)).
                catalog_answer catalog (idp @ Key ob) (es_get index (idp @ Key ob))"
  shows "fst (audit env pages es_get format output_file sns_topic None None) = None
       \<and> missing_keys (snd (audit env pages es_get format output_file sns_topic None None)) =
           map Key (filter (\<lambda>ob. idp @ Key ob \<notin> catalog) (concat (map page_contents pages)))
       \<and> (format = ''plain'' \<longrightarrow> output_file = Some F \<longrightarrow> F \<noteq> [] \<longrightarrow>
            trace (snd (audit env pages es_get format output_file sns_topic None None)) =
              map (\<lambda>p. S3ListPage bucket pp) pages @
              map (\<lambda>ob. EsGet index (idp @ Key ob)) (concat (map page_contents pages)) @
              [FileWrite F (concat (map (\<lambda>key. key @ [CHR 0x0A])
                 (map Key (filter (\<lambda>ob. idp @ Key ob \<notin> catalog) (concat (map page_contents pages))))))])"
proof -
  let ?run = "audit env pages es_get format output_file sns_topic None None"
  let ?keys = "concat (map page_contents pages)"
  let ?absent = "map Key (filter (\<lambda>ob. idp @ Key ob \<notin> catalog) ?keys)"
  have same: "filter (\<lambda>ob. reported_missing (es_get index (idp @ Key ob))) ?keys =
              filter (\<lambda>ob. idp @ Key ob \<notin> catalog) ?keys"
  proof (rule filter_cong [OF refl])
    fix ob assume "ob \<in> set ?keys"
    with cat have "catalog_answer catalog (idp @ Key ob) (es_get index (idp @ Key ob))" by blast
    then show "reported_missing (es_get index (idp @ Key ob)) = (idp @ Key ob \<notin> catalog)"
      by (auto simp: catalog_answer_def split: if_splits)
  qed
  have m: "missing_keys (snd ?run) = ?absent"
    using audit_missing [OF cfg sink, of pages es_get sns_topic None None] same
    by (simp add: resume_keys_None processed_None)
  have t: "trace (snd ?run) =
     map (\<lambda>p. S3ListPage bucket pp) pages @
     map (\<lambda>ob. EsGet index (idp @ Key ob)) ?keys @
     result_sink format output_file sns_topic bucket ?absent"
    using audit_trace [OF cfg sink, of ?keys None pages es_get sns_topic None] m
    by (simp add: resume_keys_None processed_None)
  have f: "format = ''plain'' \<longrightarrow> output_file = Some F \<longrightarrow> F \<noteq> [] \<longrightarrow>
     trace (snd ?run) =
       map (\<lambda>p. S3ListPage bucket pp) pages @
       map (\<lambda>ob. EsGet index (idp @ Key ob)) ?keys @
       [FileWrite F (concat (map (\<lambda>key. key @ [CHR 0x0A]) ?absent))]"
  proof (intro impI)
    assume "format = ''plain''" "output_file = Some F" "F \<noteq> []"
    then have "result_sink format output_file sns_topic bucket ?absent =
                 [FileWrite F (concat (map (\<lambda>key. key @ [CHR 0x0A]) ?absent))]"
      by (simp add: result_sink_def)
    with t show "trace (snd ?run) =
       map (\<lambda>p. S3ListPage bucket pp) pages @
       map (\<lambda>ob. EsGet index (idp @ Key ob)) ?keys @
       [FileWrite F (concat (map (\<lambda>key. key @ [CHR 0x0A]) ?absent))]"
      by (simp only:)
  qed
  from audit_fst [OF cfg sink] m f show ?thesis by blast
qed

theorem audit_uninterrupted_missing_keys_witness:
  "missing_keys (snd (audit env0 abcd only_b ''plain'' (Some ''F'') None None None)) = [''a'', ''c'', ''d'']
   \<and> trace (snd (audit env0 abcd only_b ''plain'' (Some ''F'') None None None)) =
       [S3ListPage ''bkt'' [], S3ListPage ''bkt'' [], S3ListPage ''bkt'' [],
        EsGet ''idx'' ''s3://bkt/a'', EsGet ''idx'' ''s3://bkt/b'',
        EsGet ''idx'' ''s3://bkt/c'', EsGet ''idx'' ''s3://bkt/d'',
        FileWrite ''F'' [CHR ''a'', CHR 0x0A, CHR ''c'', CHR 0x0A, CHR ''d'', CHR 0x0A]]"
proof -
  have sink: "\<not> (''plain'' = ''mock-s3'' \<and> \<not> truthy (Some ''F''))" by simp
  have cat: "\<forall>ob \<in> set (concat (map page_contents abcd)).
               catalog_answer {''s3://bkt/b''} (''s3://bkt/'' @ Key ob) (only_b ''idx'' (''s3://bkt/'' @ Key ob))"
    by (simp add: abcd_def page_contents_def obj_def catalog_answer_def only_b_def)
  show ?thesis
    using audit_uninterrupted_missing_keys
            [where es_get = only_b and catalog = "{''s3://bkt/b''}" and F = "''F''" and sns_topic = None,
             OF configured_env0 sink cat]
    by (simp add: abcd_def page_contents_def obj_def)
qed

text \<open>
  C2, as stated, fails: a lookup that raises an exception other than \<open>NotFoundError\<close> is
  caught by the last handler, which adds one to \<open>error_count\<close> and does not append the key.
  The run below lists the single key \<open>a\<close>, its lookup raises, and \<open>a\<close> is not in
  \<open>missing_keys\<close>.
\<close>

theorem audit_generic_exception_not_reported:
  "unreachable_catalog ''idx'' ''s3://bkt/a'' = RaisesException
   \<and> fst (audit env0 [Some [obj ''a'']] unreachable_catalog ''plain'' None None None None) = None
   \<and> count_list (missing_keys (snd (audit env0 [Some [obj ''a'']] unreachable_catalog ''plain'' None None None None))) ''a'' = 0
   \<and> error_count (snd (audit env0 [Some [obj ''a'']] unreachable_catalog ''plain'' None None None None)) = 1"
  by (simp add: audit_configured [OF configured_env0] Let_def resume_keys_None page_contents_def
        obj_def init_state_def check_key_def unreachable_catalog_def about_to_time_out_def)

text \<open>
  C2, amended. In every configured run the first \<open>p\<close> keys are looked up, in order, where
  \<open>p\<close> is the number of items before the loop ends (all of them without a host context),
  whatever the lookups answer: no lookup outcome ends the loop. \<open>missing_keys\<close> holds, in
  order, the keys among them whose lookup returned \<open>None\<close>, a value that is not a
  dictionary or a dictionary with a false \<open>found\<close> entry, or raised \<open>NotFoundError\<close>; a key
  whose lookup raised another exception, or returned a dictionary without \<open>found\<close>, is not
  in it and is only counted: \<open>error_count\<close> is the number of entries of \<open>missing_keys\<close> plus
  the number of those lookups. When the listed keys are distinct each key of the first
  kind is in \<open>missing_keys\<close> exactly once.
\<close>

theorem audit_lookup_failures:
  assumes cfg: "configured env index pp bucket idp"
    and sink: "\<not> (format = ''mock-s3'' \<and> \<not> truthy output_file)"
    and keys: "keys = resume_keys r (concat (map page_contents pages))"
    and p: "p = processed ctx 0 keys"
  shows "fst (audit env pages es_get format output_file sns_topic r ctx) = None
       \<and> count (snd (audit env pages es_get format output_file sns_topic r ctx)) = p
       \<and> (ctx = None \<longrightarrow> p = length keys)
       \<and> es_ids (trace (snd (audit env pages es_get format output_file sns_topic r ctx))) =
           map (\<lambda>ob. idp @ Key ob) (take p keys)
       \<and> missing_keys (snd (audit env pages es_get format output_file sns_topic r ctx)) =
           map Key (filter (\<lambda>ob. reported_missing (es_get index (idp @ Key ob))) (take p keys))
       \<and> (distinct (map Key keys) \<longrightarrow>
            (\<forall>i<p. count_list (missing_keys (snd (audit env pages es_get format output_file sns_topic r ctx)))
                      (Key (keys ! i)) =
                    (if reported_missing (es_get index (idp @ Key (keys ! i))) then 1 else 0)))
       \<and> error_count (snd (audit env pages es_get format output_file sns_topic r ctx)) =
           length (missing_keys (snd (audit env pages es_get format output_file sns_topic r ctx)))
           + length (filter (\<lambda>ob. counted_only (es_get index (idp @ Key ob))) (take p keys))
       \<and> (\<forall>ob \<in> set (take p keys). counted_only (es_get index (idp @ Key ob)) \<longrightarrow>
             Key ob \<notin> set (missing_keys (snd (audit env pages es_get format output_file sns_topic r ctx))))"
proof -
  let ?run = "audit env pages es_get format output_file sns_topic r ctx"
  let ?P = "\<lambda>ob. reported_missing (es_get index (idp @ Key ob))"
  have c: "count (snd ?run) = p"
    using audit_count [OF cfg sink] by (simp add: keys p)
  have n: "ctx = None \<longrightarrow> p = length keys"
    by (simp add: p processed_None)
  have e: "es_ids (trace (snd ?run)) = map (\<lambda>ob. idp @ Key ob) (take p keys)"
    using audit_es_ids [OF cfg sink keys] by (simp add: p)
  have m: "missing_keys (snd ?run) = map Key (filter ?P (take p keys))"
    using audit_missing [OF cfg sink] by (simp add: keys p)
  have d: "distinct (map Key keys) \<longrightarrow>
            (\<forall>i<p. count_list (missing_keys (snd ?run)) (Key (keys ! i)) =
                    (if ?P (keys ! i) then 1 else 0))"
  proof (intro impI allI)
    fix i assume dist: "distinct (map Key keys)" and i: "i < p"
    have ple: "p \<le> length keys" by (simp add: p processed_le)
    have dt: "distinct (map Key (take p keys))"
      using dist by (simp add: take_map [symmetric] distinct_take)
    have "keys ! i \<in> set (take p keys)"
      using i ple by (metis in_set_conv_nth length_take min.absorb2 nth_take)
    from count_list_map_filter [OF dt this, of ?P] m
    show "count_list (missing_keys (snd ?run)) (Key (keys ! i)) = (if ?P (keys ! i) then 1 else 0)"
      by simp
  qed
  have f: "fst ?run = None" by (rule audit_fst [OF cfg sink])
  have ec: "error_count (snd ?run) =
              length (missing_keys (snd ?run))
              + length (filter (\<lambda>ob. counted_only (es_get index (idp @ Key ob))) (take p keys))"
    using audit_error_count [OF cfg sink, of pages es_get sns_topic r ctx]
    by (simp add: m keys p)
  have no: "\<forall>ob \<in> set (take p keys). counted_only (es_get index (idp @ Key ob)) \<longrightarrow>
              Key ob \<notin> set (missing_keys (snd ?run))"
  proof (intro ballI impI)
    fix ob assume "ob \<in> set (take p keys)" and co: "counted_only (es_get index (idp @ Key ob))"
    have nr: "\<not> reported_missing (es_get index (idp @ Key ob))"
      using co by (cases "es_get index (idp @ Key ob)" rule: counted_only.cases) simp_all
    show "Key ob \<notin> set (missing_keys (snd ?run))"
    proof
      assume "Key ob \<in> set (missing_keys (snd ?run))"
      then have "Key ob \<in> Key ` set (filter ?P (take p keys))"
        by (simp only: m set_map)
      then obtain x where k': "Key ob = Key x" and x: "x \<in> set (filter ?P (take p keys))"
        by (rule imageE)
      from x have r': "reported_missing (es_get index (idp @ Key x))"
        by simp
      from r' have "reported_missing (es_get index (idp @ Key ob))"
        by (simp only: k')
      with nr show False by simp
    qed
  qed
  show ?thesis by (intro conjI f c n e m d ec no)
qed

theorem audit_lookup_failures_witness:
  "count (snd (audit env0 abcd flaky_catalog ''plain'' None None None None)) = 4
   \<and> es_ids (trace (snd (audit env0 abcd flaky_catalog ''plain'' None None None None))) =
       [''s3://bkt/a'', ''s3://bkt/b'', ''s3://bkt/c'', ''s3://bkt/d'']
   \<and> missing_keys (snd (audit env0 abcd flaky_catalog ''plain'' None None None None)) = [''c'', ''d'']
   \<and> count_list (missing_keys (snd (audit env0 abcd flaky_catalog ''plain'' None None None None))) ''c'' = 1
   \<and> error_count (snd (audit env0 abcd flaky_catalog ''plain'' None None None None)) = 3"
proof -
  have sink: "\<not> (''plain'' = ''mock-s3'' \<and> \<not> truthy None)" by simp
  have k: "[obj ''a'', obj ''b'', obj ''c'', obj ''d''] = resume_keys None (concat (map page_contents abcd))"
    by (simp add: resume_keys_def abcd_def page_contents_def)
  have p: "4 = processed None 0 [obj ''a'', obj ''b'', obj ''c'', obj ''d'']"
    by (simp add: about_to_time_out_def)
  have d: "distinct (map Key [obj ''a'', obj ''b'', obj ''c'', obj ''d''])"
    by (simp add: obj_def)
  have i: "(2::nat) < 4" by simp
  show ?thesis
    using audit_lookup_failures
            [where es_get = flaky_catalog and sns_topic = None, OF configured_env0 sink k p] d i
    by (simp add: obj_def flaky_catalog_def)
qed

text \<open>
  C3 against the code. The list \<open>keys\<close> holds the listed dictionaries, so the string
  \<open>resume_from_key\<close> is never a member of it and the run starts from the beginning: with
  the cursor at \<open>c\<close> on the listing a, b, c, d all four keys are looked up.
\<close>

theorem audit_resume_cursor_ignored:
  "es_ids (trace (snd (audit env0 abcd only_b ''plain'' None None (Some ''c'') None))) =
     [''s3://bkt/a'', ''s3://bkt/b'', ''s3://bkt/c'', ''s3://bkt/d'']
   \<and> count (snd (audit env0 abcd only_b ''plain'' None None (Some ''c'') None)) = 4"
proof -
  have sink: "\<not> (''plain'' = ''mock-s3'' \<and> \<not> truthy None)" by simp
  have k: "resume_keys (Some ''c'') (concat (map page_contents abcd)) = [obj ''a'', obj ''b'', obj ''c'', obj ''d'']"
    by (simp add: resume_keys_def abcd_def page_contents_def obj_def)
  show ?thesis
    using audit_es_ids [OF configured_env0 sink k [symmetric], of only_b None None]
          audit_count [OF configured_env0 sink, of abcd only_b None "Some ''c''" None]
    by (simp add: k obj_def about_to_time_out_def)
qed


text \<open>
  C4. In a run with a host context, let item \<open>i\<close> be the first whose time check reads less
  than 60 seconds. Then exactly the items before \<open>i\<close> are looked up, \<open>missing_keys\<close> holds
  the missing ones among them, the run hands them to the output strategy (the file is
  written in report mode, one message per key is sent in requeue mode), and only after
  that invokes the function again, asynchronously, with the key of item \<open>i\<close> as
  \<open>ResumeFromKey\<close>.
\<close>

theorem audit_suspends_before_item:
  assumes cfg: "configured env index pp bucket idp"
    and sink: "\<not> (format = ''mock-s3'' \<and> \<not> truthy output_file)"
    and keys: "keys = resume_keys r (concat (map page_contents pages))"
    and i: "i < length keys"
    and low: "remaining_time_in_millis c i < 60 * 1000"
    and before: "\<forall>j<i. \<not> remaining_time_in_millis c j < 60 * 1000"
  shows "fst (audit env pages es_get format output_file sns_topic r (Some c)) = None
       \<and> es_ids (trace (snd (audit env pages es_get format output_file sns_topic r (Some c)))) =
           map (\<lambda>ob. idp @ Key ob) (take i keys)
       \<and> missing_keys (snd (audit env pages es_get format output_file sns_topic r (Some c))) =
           map Key (filter (\<lambda>ob. reported_missing (es_get index (idp @ Key ob))) (take i keys))
       \<and> resume_from_key (snd (audit env pages es_get format output_file sns_topic r (Some c))) =
           Some (Key (keys ! i))
       \<and> trace (snd (audit env pages es_get format output_file sns_topic r (Some c))) =
           map (\<lambda>p. S3ListPage bucket pp) pages @
           map (\<lambda>ob. EsGet index (idp @ Key ob)) (take i keys) @
           result_sink format output_file sns_topic bucket
             (map Key (filter (\<lambda>ob. reported_missing (es_get index (idp @ Key ob))) (take i keys))) @
           [LambdaInvoke (function_name c) ''Event'' (resume_payload (Key (keys ! i)))]
       \<and> (format = ''plain'' \<longrightarrow> output_file = Some F \<longrightarrow> F \<noteq> [] \<longrightarrow>
            result_sink format output_file sns_topic bucket
              (map Key (filter (\<lambda>ob. reported_missing (es_get index (idp @ Key ob))) (take i keys))) =
            [FileWrite F (concat (map (\<lambda>key. key @ [CHR 0x0A])
               (map Key (filter (\<lambda>ob. reported_missing (es_get index (idp @ Key ob))) (take i keys)))))])
       \<and> (format \<noteq> ''plain'' \<longrightarrow> sns_topic = None \<longrightarrow>
            result_sink format output_file sns_topic bucket
              (map Key (filter (\<lambda>ob. reported_missing (es_get index (idp @ Key ob))) (take i keys))) =
            map (\<lambda>k. SqsSendMessage output_file (reconcile_message bucket k))
              (map Key (filter (\<lambda>ob. reported_missing (es_get index (idp @ Key ob))) (take i keys))))"
proof -
  let ?run = "audit env pages es_get format output_file sns_topic r (Some c)"
  let ?M = "map Key (filter (\<lambda>ob. reported_missing (es_get index (idp @ Key ob))) (take i keys))"
  have p: "processed (Some c) 0 keys = i"
  proof (rule processed_first [OF i])
    show "about_to_time_out (Some c) (0 + i)" using low by (simp add: about_to_time_out_def)
    fix j assume "j < i"
    with before show "\<not> about_to_time_out (Some c) (0 + j)" by (simp add: about_to_time_out_def)
  qed
  have f: "fst ?run = None" by (rule audit_fst [OF cfg sink])
  have e: "es_ids (trace (snd ?run)) = map (\<lambda>ob. idp @ Key ob) (take i keys)"
    using audit_es_ids [OF cfg sink keys, of es_get sns_topic "Some c"] by (simp add: p)
  have m: "missing_keys (snd ?run) = ?M"
    using audit_missing [OF cfg sink, of pages es_get sns_topic r "Some c"] p by (simp add: keys)
  have rk: "resume_from_key (snd ?run) = Some (Key (keys ! i))"
    using audit_resume_from_key [OF cfg sink, of "Some c" r pages es_get sns_topic] p i
    by (simp add: keys)
  have t: "trace (snd ?run) =
           map (\<lambda>p. S3ListPage bucket pp) pages @
           map (\<lambda>ob. EsGet index (idp @ Key ob)) (take i keys) @
           result_sink format output_file sns_topic bucket ?M @
           [LambdaInvoke (function_name c) ''Event'' (resume_payload (Key (keys ! i)))]"
    using audit_trace [OF cfg sink keys, of es_get sns_topic "Some c"] i
    by (simp add: p m)
  have s1: "format = ''plain'' \<longrightarrow> output_file = Some F \<longrightarrow> F \<noteq> [] \<longrightarrow>
            result_sink format output_file sns_topic bucket ?M =
            [FileWrite F (concat (map (\<lambda>key. key @ [CHR 0x0A]) ?M))]"
    by (simp add: result_sink_def)
  have s2: "format \<noteq> ''plain'' \<longrightarrow> sns_topic = None \<longrightarrow>
            result_sink format output_file sns_topic bucket ?M =
            map (\<lambda>k. SqsSendMessage output_file (reconcile_message bucket k)) ?M"
    by (simp add: result_sink_def key_to_sqs_msg_eq comp_def)
  show ?thesis by (intro conjI f e m rk t s1 s2)
qed

theorem audit_suspends_before_item_witness:
  "trace (snd (audit env0 abcd only_b ''plain'' (Some ''F'') None None (Some ctx0))) =
     [S3ListPage ''bkt'' [], S3ListPage ''bkt'' [], S3ListPage ''bkt'' [],
      EsGet ''idx'' ''s3://bkt/a'', EsGet ''idx'' ''s3://bkt/b'',
      FileWrite ''F'' [CHR ''a'', CHR 0x0A],
      LambdaInvoke ''audit_fn'' ''Event'' (resume_payload ''c'')]
   \<and> resume_from_key (snd (audit env0 abcd only_b ''plain'' (Some ''F'') None None (Some ctx0))) = Some ''c''"
proof -
  have sink: "\<not> (''plain'' = ''mock-s3'' \<and> \<not> truthy (Some ''F''))" by simp
  have k: "[obj ''a'', obj ''b'', obj ''c'', obj ''d''] = resume_keys None (concat (map page_contents abcd))"
    by (simp add: resume_keys_def abcd_def page_contents_def)
  have i: "2 < length [obj ''a'', obj ''b'', obj ''c'', obj ''d'']" by simp
  have low: "remaining_time_in_millis ctx0 2 < 60 * 1000" by (simp add: ctx0_def)
  have before: "\<forall>j<2. \<not> remaining_time_in_millis ctx0 j < 60 * 1000"
    by (simp add: ctx0_def)
  show ?thesis
    using audit_suspends_before_item
            [where es_get = only_b and sns_topic = None and F = "''F''",
             OF configured_env0 sink k i low before]
    by (simp add: obj_def only_b_def ctx0_def abcd_def)
qed

text \<open>
  C7, as stated, fails: \<open>append_slash\<close> returns the empty string unchanged, so an
  environment that sets the document-id prefix to the empty string passes the checks with
  a prefix that does not end with a slash, and the document id of a key is the key itself.
\<close>

theorem audit_empty_id_prefix_has_no_slash:
  "OPENSEARCH_ID_PREFIX env_empty_prefix = Some []
   \<and> opensearch_id_prefix env_empty_prefix = Some []
   \<and> \<not> ends_with_slash []
   \<and> es_ids (trace (snd (audit env_empty_prefix [Some [obj ''a'']] only_b ''plain'' None None None None))) = [''a'']"
proof -
  have sink: "\<not> (''plain'' = ''mock-s3'' \<and> \<not> truthy None)" by simp
  have k: "[obj ''a''] = resume_keys None (concat (map page_contents [Some [obj ''a'']]))"
    by (simp add: resume_keys_def page_contents_def)
  show ?thesis
    using audit_es_ids [OF configured_env_empty_prefix sink k, of only_b None None]
    by (simp add: env_empty_prefix_def env0_def opensearch_id_prefix_def append_slash_def
          ends_with_slash_def obj_def about_to_time_out_def)
qed

text \<open>
  C7, amended. The document-id prefix of a configured run is the configured one (by
  default \<open>s3://\<close>, the bucket name and a slash) with a slash appended when it is not empty
  and does not end with one; a prefix that is not empty ends with a slash after that, the
  empty prefix stays empty, and normalising again changes nothing. Every lookup of the
  run uses the prefix followed by the key as document id, and two keys with the same
  document id are the same key.
\<close>

theorem audit_document_ids:
  assumes cfg: "configured env index pp bucket idp"
    and sink: "\<not> (format = ''mock-s3'' \<and> \<not> truthy output_file)"
    and keys: "keys = resume_keys r (concat (map page_contents pages))"
    and raw: "raw = (case OPENSEARCH_ID_PREFIX env of None \<Rightarrow> ''s3://'' @ bucket @ ''/'' | Some p \<Rightarrow> p)"
  shows "idp = (if raw = [] then [] else if last raw \<noteq> CHR ''/'' then raw @ ''/'' else raw)
       \<and> (raw \<noteq> [] \<longrightarrow> ends_with_slash idp)
       \<and> append_slash (Some idp) = Some idp
       \<and> es_ids (trace (snd (audit env pages es_get format output_file sns_topic r ctx))) =
           map (\<lambda>ob. idp @ Key ob) (take (processed ctx 0 keys) keys)
       \<and> (\<forall>k k'. idp @ k = idp @ k' \<longrightarrow> k = k')"
proof -
  from cfg have b: "OPENSEARCH_BUCKET env = Some bucket" and ip: "opensearch_id_prefix env = Some idp"
    by (simp_all add: configured_def)
  have rawc: "(case OPENSEARCH_ID_PREFIX env of
                 None \<Rightarrow> ''s3://'' @ py_format (OPENSEARCH_BUCKET env) @ ''/'' | Some p \<Rightarrow> p) = raw"
    using b by (simp add: raw py_format_def split: option.split)
  have "append_slash (Some raw) = Some idp"
    using ip by (simp only: opensearch_id_prefix_def rawc)
  then have a: "idp = (if raw = [] then [] else if last raw \<noteq> CHR ''/'' then raw @ ''/'' else raw)"
    by (simp only: append_slash_Some option.inject)
  have s: "raw \<noteq> [] \<longrightarrow> ends_with_slash idp"
    by (simp add: a ends_with_slash_def)
  have i: "append_slash (Some idp) = Some idp"
    by (simp add: a append_slash_Some)
  have e: "es_ids (trace (snd (audit env pages es_get format output_file sns_topic r ctx))) =
           map (\<lambda>ob. idp @ Key ob) (take (processed ctx 0 keys) keys)"
    by (rule audit_es_ids [OF cfg sink keys])
  have inj: "\<forall>k k'. idp @ k = idp @ k' \<longrightarrow> k = k'" by simp
  show ?thesis by (intro conjI a s i e inj)
qed

theorem audit_document_ids_witness:
  "es_ids (trace (snd (audit (env0\<lparr>OPENSEARCH_ID_PREFIX := Some ''s3://other''\<rparr>) abcd only_b ''plain'' None None None None))) =
     [''s3://other/a'', ''s3://other/b'', ''s3://other/c'', ''s3://other/d'']
   \<and> ends_with_slash ''s3://other/''
   \<and> append_slash (Some ''s3://other/'') = Some ''s3://other/''"
proof -
  have cfg: "configured (env0\<lparr>OPENSEARCH_ID_PREFIX := Some ''s3://other''\<rparr>) ''idx'' [] ''bkt'' ''s3://other/''"
    by (simp add: configured_def env0_def opensearch_path_prefix_def opensearch_id_prefix_def
          append_slash_def)
  have sink: "\<not> (''plain'' = ''mock-s3'' \<and> \<not> truthy None)" by simp
  have k: "[obj ''a'', obj ''b'', obj ''c'', obj ''d''] = resume_keys None (concat (map page_contents abcd))"
    by (simp add: resume_keys_def abcd_def page_contents_def)
  have raw: "''s3://other'' =
      (case OPENSEARCH_ID_PREFIX (env0\<lparr>OPENSEARCH_ID_PREFIX := Some ''s3://other''\<rparr>) of
         None \<Rightarrow> ''s3://'' @ ''bkt'' @ ''/'' | Some p \<Rightarrow> p)"
    by simp
  show ?thesis
    using audit_document_ids
            [where es_get = only_b and sns_topic = None and ctx = None, OF cfg sink k raw]
    by (simp add: obj_def about_to_time_out_def)
qed

text \<open>
  C8, as stated, fails: the listing and the catalog do not fix \<open>missing_keys\<close>, the time
  the host leaves to the run matters too. On the same listing and the same catalog, the
  run without a host context ends with the keys a, c and d, and the run under the host
  \<open>ctx0\<close>, which stops before the third item, ends with the key a only.
\<close>

theorem audit_time_budget_changes_missing_keys:
  "missing_keys (snd (audit env0 abcd only_b ''plain'' None None None None)) = [''a'', ''c'', ''d'']
   \<and> missing_keys (snd (audit env0 abcd only_b ''plain'' None None None (Some ctx0))) = [''a'']"
proof -
  have sink: "\<not> (''plain'' = ''mock-s3'' \<and> \<not> truthy None)" by simp
  have k: "resume_keys None (concat (map page_contents abcd)) = [obj ''a'', obj ''b'', obj ''c'', obj ''d'']"
    by (simp add: resume_keys_def abcd_def page_contents_def)
  have a: "missing_keys (snd (audit env0 abcd only_b ''plain'' None None None None)) = [''a'', ''c'', ''d'']"
    using audit_missing [OF configured_env0 sink, of abcd only_b None None None]
    by (simp add: k about_to_time_out_def obj_def only_b_def)
  have b: "missing_keys (snd (audit env0 abcd only_b ''plain'' None None None (Some ctx0))) = [''a'']"
    using audit_missing [OF configured_env0 sink, of abcd only_b None None "Some ctx0"]
    by (simp add: k about_to_time_out_def ctx0_def obj_def only_b_def)
  show ?thesis by (intro conjI a b)
qed

text \<open>
  C8, amended. Two configured runs on the same listing (however it is split into pages),
  with the same document-id prefix, the same resume cursor and the same host time
  readings (two runs without a host context among them), and lookups that answer alike
  on the listed documents, end with the same \<open>missing_keys\<close>, in the same order, whatever
  their output format, destination and topic.
\<close>

theorem audit_deterministic:
  assumes cfg1: "configured env1 index1 pp1 bucket1 idp"
    and cfg2: "configured env2 index2 pp2 bucket2 idp"
    and sink1: "\<not> (format1 = ''mock-s3'' \<and> \<not> truthy output_file1)"
    and sink2: "\<not> (format2 = ''mock-s3'' \<and> \<not> truthy output_file2)"
    and listing: "concat (map page_contents pages1) = concat (map page_contents pages2)"
    and lookups: "\<forall>ob \<in> set (concat (map page_contents pages1)).
                    es_get1 index1 (idp @ Key ob) = es_get2 index2 (idp @ Key ob)"
  shows "missing_keys (snd (audit env1 pages1 es_get1 format1 output_file1 sns_topic1 r ctx)) =
         missing_keys (snd (audit env2 pages2 es_get2 format2 output_file2 sns_topic2 r ctx))"
proof -
  let ?keys = "resume_keys r (concat (map page_contents pages1))"
  let ?p = "processed ctx 0 ?keys"
  have sub: "set (take ?p ?keys) \<subseteq> set (concat (map page_contents pages1))"
    using set_take_subset [of ?p ?keys] set_resume_keys [of r "concat (map page_contents pages1)"]
    by blast
  have "filter (\<lambda>ob. reported_missing (es_get1 index1 (idp @ Key ob))) (take ?p ?keys) =
        filter (\<lambda>ob. reported_missing (es_get2 index2 (idp @ Key ob))) (take ?p ?keys)"
  proof (rule filter_cong [OF refl])
    fix ob assume "ob \<in> set (take ?p ?keys)"
    with sub have "ob \<in> set (concat (map page_contents pages1))" by blast
    with lookups have "es_get1 index1 (idp @ Key ob) = es_get2 index2 (idp @ Key ob)"
      by blast
    then show "reported_missing (es_get1 index1 (idp @ Key ob)) =
               reported_missing (es_get2 index2 (idp @ Key ob))"
      by (simp only:)
  qed
  then show ?thesis
    using audit_missing [OF cfg1 sink1, of pages1 es_get1 sns_topic1 r ctx]
          audit_missing [OF cfg2 sink2, of pages2 es_get2 sns_topic2 r ctx]
    by (simp add: listing [symmetric])
qed

theorem audit_deterministic_witness:
  "missing_keys (snd (audit env0 abcd only_b ''plain'' (Some ''F'') None None None)) =
   missing_keys (snd (audit env0 [Some [obj ''a'', obj ''b'', obj ''c'', obj ''d'']] only_b
                        ''mock-s3'' (Some ''Q'') (Some ''T'') None None))"
proof -
  have sink1: "\<not> (''plain'' = ''mock-s3'' \<and> \<not> truthy (Some ''F''))" by simp
  have sink2: "\<not> (''mock-s3'' = ''mock-s3'' \<and> \<not> truthy (Some ''Q''))" by (simp add: truthy_def)
  have listing: "concat (map page_contents abcd) =
                 concat (map page_contents [Some [obj ''a'', obj ''b'', obj ''c'', obj ''d'']])"
    by (simp add: abcd_def page_contents_def)
  have lookups: "\<forall>ob \<in> set (concat (map page_contents abcd)).
                   only_b ''idx'' (''s3://bkt/'' @ Key ob) = only_b ''idx'' (''s3://bkt/'' @ Key ob)"
    by simp
  show ?thesis
    by (rule audit_deterministic
          [where ?es_get1.0 = only_b and ?es_get2.0 = only_b,
           OF configured_env0 configured_env0 sink1 sink2 listing lookups])
qed

text \<open>
  C6. In requeue mode (any format other than \<open>plain\<close>) a configured run sends one queue
  message per entry of \<open>missing_keys\<close>, in order, to the destination; the body of each is
  the serialisation by \<open>json.dumps\<close> of the object
  \<open>{"Records": [{"eventName": "ObjectCreated:Put", "s3": {"bucket": {"name": bucket},
  "object": {"key": key}}}]}\<close> with the run's bucket and the missing key. One summary
  notification is published exactly when the topic is given and not empty, after the last
  queue message and before the re-invocation, if any.
\<close>

theorem audit_requeue_messages:
  assumes cfg: "configured env index pp bucket idp"
    and sink: "\<not> (format = ''mock-s3'' \<and> \<not> truthy output_file)"
    and requeue: "format \<noteq> ''plain''"
    and keys: "keys = resume_keys r (concat (map page_contents pages))"
  shows "sqs_sent (trace (snd (audit env pages es_get format output_file sns_topic r ctx))) =
           map (\<lambda>k. (output_file, reconcile_message bucket k))
             (missing_keys (snd (audit env pages es_get format output_file sns_topic r ctx)))
       \<and> length (sqs_sent (trace (snd (audit env pages es_get format output_file sns_topic r ctx)))) =
           length (missing_keys (snd (audit env pages es_get format output_file sns_topic r ctx)))
       \<and> (\<forall>k. key_to_sqs_msg k bucket = reconcile_message bucket k
              \<and> key_to_sqs_msg k bucket = json_dumps (reconcile_event bucket k))
       \<and> sns_published (trace (snd (audit env pages es_get format output_file sns_topic r ctx))) =
           (case sns_topic of
              None \<Rightarrow> []
            | Some t \<Rightarrow>
                if t = [] then []
                else [(t, summary_message (length (missing_keys
                            (snd (audit env pages es_get format output_file sns_topic r ctx)))),
                       ''Insitu audit'')])
       \<and> ((sns_published (trace (snd (audit env pages es_get format output_file sns_topic r ctx))) \<noteq> [])
            = truthy sns_topic)
       \<and> trace (snd (audit env pages es_get format output_file sns_topic r ctx)) =
           map (\<lambda>p. S3ListPage bucket pp) pages @
           map (\<lambda>ob. EsGet index (idp @ Key ob)) (take (processed ctx 0 keys) keys) @
           map (\<lambda>k. SqsSendMessage output_file (reconcile_message bucket k))
             (missing_keys (snd (audit env pages es_get format output_file sns_topic r ctx))) @
           (case sns_topic of
              None \<Rightarrow> []
            | Some t \<Rightarrow>
                if t = [] then []
                else [SnsPublish t (summary_message (length (missing_keys
                        (snd (audit env pages es_get format output_file sns_topic r ctx)))))
                        ''Insitu audit'']) @
           (case ctx of
              None \<Rightarrow> []
            | Some c \<Rightarrow>
                if processed ctx 0 keys < length keys
                then [LambdaInvoke (function_name c) ''Event''
                        (resume_payload (Key (keys ! processed ctx 0 keys)))]
                else [])"
proof -
  let ?run = "audit env pages es_get format output_file sns_topic r ctx"
  let ?M = "missing_keys (snd ?run)"
  let ?sns = "case sns_topic of
              None \<Rightarrow> []
            | Some t \<Rightarrow> if t = [] then [] else [SnsPublish t (summary_message (length ?M)) ''Insitu audit'']"
  let ?inv = "case ctx of
              None \<Rightarrow> []
            | Some c \<Rightarrow>
                if processed ctx 0 keys < length keys
                then [LambdaInvoke (function_name c) ''Event''
                        (resume_payload (Key (keys ! processed ctx 0 keys)))]
                else []"
  have t: "trace (snd ?run) =
           map (\<lambda>p. S3ListPage bucket pp) pages @
           map (\<lambda>ob. EsGet index (idp @ Key ob)) (take (processed ctx 0 keys) keys) @
           map (\<lambda>k. SqsSendMessage output_file (reconcile_message bucket k)) ?M @ ?sns @ ?inv"
    using audit_trace [OF cfg sink keys, of es_get sns_topic ctx]
    by (simp only: result_sink_requeue [OF requeue] append_assoc)
  have inv_sqs: "sqs_sent ?inv = []" by (simp split: option.split)
  have inv_sns: "sns_published ?inv = []" by (simp split: option.split)
  have sns_sqs: "sqs_sent ?sns = []" by (simp split: option.split)
  have a: "sqs_sent (trace (snd ?run)) = map (\<lambda>k. (output_file, reconcile_message bucket k)) ?M"
    by (simp only: t sqs_sent_append sqs_sent_list sqs_sent_gets sqs_sent_sends inv_sqs sns_sqs
          append_Nil append_Nil2)
  have b: "length (sqs_sent (trace (snd ?run))) = length ?M"
    by (simp only: a length_map)
  have c: "\<forall>k. key_to_sqs_msg k bucket = reconcile_message bucket k
              \<and> key_to_sqs_msg k bucket = json_dumps (reconcile_event bucket k)"
    by (simp add: key_to_sqs_msg_eq) (simp add: key_to_sqs_msg_def reconcile_event_def reconcile_message_def)
  have d: "sns_published (trace (snd ?run)) =
           (case sns_topic of
              None \<Rightarrow> []
            | Some t \<Rightarrow> if t = [] then [] else [(t, summary_message (length ?M), ''Insitu audit'')])"
    by (simp only: t sns_published_append sns_published_list sns_published_gets
          sns_published_sends inv_sns append_Nil append_Nil2)
       (simp split: option.split)
  have e: "(sns_published (trace (snd ?run)) \<noteq> []) = truthy sns_topic"
    by (simp add: d truthy_def split: option.split)
  show ?thesis by (intro conjI a b c d e t)
qed

theorem audit_requeue_messages_witness:
  "sqs_sent (trace (snd (audit env0 abcd only_b ''mock-s3'' (Some ''Q'') None None None))) =
     [(Some ''Q'', reconcile_message ''bkt'' ''a''), (Some ''Q'', reconcile_message ''bkt'' ''c''),
      (Some ''Q'', reconcile_message ''bkt'' ''d'')]
   \<and> sns_published (trace (snd (audit env0 abcd only_b ''mock-s3'' (Some ''Q'') None None None))) = []
   \<and> reconcile_message ''bkt'' ''a'' =
       ''{'' @ [CHR 0x22] @ ''Records'' @ [CHR 0x22] @ '': [{'' @ [CHR 0x22] @ ''eventName'' @ [CHR 0x22] @
       '': '' @ [CHR 0x22] @ ''ObjectCreated:Put'' @ [CHR 0x22] @ '', '' @ [CHR 0x22] @ ''s3'' @ [CHR 0x22] @
       '': {'' @ [CHR 0x22] @ ''bucket'' @ [CHR 0x22] @ '': {'' @ [CHR 0x22] @ ''name'' @ [CHR 0x22] @ '': '' @
       [CHR 0x22] @ ''bkt'' @ [CHR 0x22] @ ''}, '' @ [CHR 0x22] @ ''object'' @ [CHR 0x22] @ '': {'' @
       [CHR 0x22] @ ''key'' @ [CHR 0x22] @ '': '' @ [CHR 0x22] @ ''a'' @ [CHR 0x22] @ ''}}}]}''"
proof -
  have sink: "\<not> (''mock-s3'' = ''mock-s3'' \<and> \<not> truthy (Some ''Q''))" by (simp add: truthy_def)
  have requeue: "''mock-s3'' \<noteq> ''plain''" by simp
  have k: "[obj ''a'', obj ''b'', obj ''c'', obj ''d''] = resume_keys None (concat (map page_contents abcd))"
    by (simp add: resume_keys_def abcd_def page_contents_def)
  have m: "missing_keys (snd (audit env0 abcd only_b ''mock-s3'' (Some ''Q'') None None None)) = [''a'', ''c'', ''d'']"
    using audit_missing [OF configured_env0 sink, of abcd only_b None None None]
    by (simp add: k [symmetric] about_to_time_out_def obj_def only_b_def)
  have r: "reconcile_message ''bkt'' ''a'' =
       ''{'' @ [CHR 0x22] @ ''Records'' @ [CHR 0x22] @ '': [{'' @ [CHR 0x22] @ ''eventName'' @ [CHR 0x22] @
       '': '' @ [CHR 0x22] @ ''ObjectCreated:Put'' @ [CHR 0x22] @ '', '' @ [CHR 0x22] @ ''s3'' @ [CHR 0x22] @
       '': {'' @ [CHR 0x22] @ ''bucket'' @ [CHR 0x22] @ '': {'' @ [CHR 0x22] @ ''name'' @ [CHR 0x22] @ '': '' @
       [CHR 0x22] @ ''bkt'' @ [CHR 0x22] @ ''}, '' @ [CHR 0x22] @ ''object'' @ [CHR 0x22] @ '': {'' @
       [CHR 0x22] @ ''key'' @ [CHR 0x22] @ '': '' @ [CHR 0x22] @ ''a'' @ [CHR 0x22] @ ''}}}]}''"
    by (simp add: reconcile_message_def json_string_def json_escape_char_def)
  have a: "sqs_sent (trace (snd (audit env0 abcd only_b ''mock-s3'' (Some ''Q'') None None None))) =
     [(Some ''Q'', reconcile_message ''bkt'' ''a''), (Some ''Q'', reconcile_message ''bkt'' ''c''),
      (Some ''Q'', reconcile_message ''bkt'' ''d'')]"
    using audit_requeue_messages
            [where es_get = only_b and sns_topic = None and ctx = None,
             OF configured_env0 sink requeue k, THEN conjunct1] m
    by simp
  have b: "sns_published (trace (snd (audit env0 abcd only_b ''mock-s3'' (Some ''Q'') None None None))) = []"
    using audit_requeue_messages
            [where es_get = only_b and sns_topic = None and ctx = None,
             OF configured_env0 sink requeue k,
             THEN conjunct2, THEN conjunct2, THEN conjunct2, THEN conjunct1]
    by simp
  show ?thesis by (intro conjI a b r)
qed

text \<open>
  C10. \<open>authenticate\<close> returns \<open>None\<close> exactly when the input has the key \<open>Authorization\<close>,
  its value is a string that decodes, and the decoded string equals the stored token; it
  never raises, returns an error string in every other case, and leaves the object as it
  was. The token is the empty string at construction; a call of \<open>get_auth_credentials\<close>
  that raises leaves it unchanged, and one that returns has set it to the entry of the
  returned document.
\<close>

theorem authenticate_result:
  "(fst (authenticate b64decode self input_auth_cred) = Inr None) =
     (\<exists>v s. input_auth_cred ''Authorization'' = Some (HStr v) \<and> b64decode v = Some s \<and>
            JString s = token self)
   \<and> (\<exists>res. fst (authenticate b64decode self input_auth_cred) = Inr res)
   \<and> (fst (authenticate b64decode self input_auth_cred) \<noteq> Inr None \<longrightarrow>
        (\<exists>msg. fst (authenticate b64decode self input_auth_cred) = Inr (Some msg)))
   \<and> snd (authenticate b64decode self input_auth_cred) = self
   \<and> token authenticator_init = JString []
   \<and> (\<forall>e self'. get_auth_credentials get_secret json_loads py_str self cred_name = (Inl e, self') \<longrightarrow>
         self' = self)
   \<and> (\<forall>secret_json self'.
         get_auth_credentials get_secret json_loads py_str self cred_name = (Inr secret_json, self') \<longrightarrow>
         py_getitem secret_json ''auth_cred'' = Inr (token self'))"
proof -
  have a: "(fst (authenticate b64decode self input_auth_cred) = Inr None) =
     (\<exists>v s. input_auth_cred ''Authorization'' = Some (HStr v) \<and> b64decode v = Some s \<and>
            JString s = token self)"
    by (auto simp: authenticate_def split: option.splits header.splits)
  have b: "\<exists>res. fst (authenticate b64decode self input_auth_cred) = Inr res"
    by (simp add: authenticate_def split: option.split header.split)
  have c: "fst (authenticate b64decode self input_auth_cred) \<noteq> Inr None \<longrightarrow>
        (\<exists>msg. fst (authenticate b64decode self input_auth_cred) = Inr (Some msg))"
    by (simp add: authenticate_def split: option.split header.split)
  have d: "snd (authenticate b64decode self input_auth_cred) = self"
    by (simp add: authenticate_def split: option.split header.split)
  have e: "token authenticator_init = JString []"
    by (simp add: authenticator_init_def)
  have f: "\<forall>e self'. get_auth_credentials get_secret json_loads py_str self cred_name = (Inl e, self') \<longrightarrow>
         self' = self"
    using get_auth_credentials_failure by blast
  have g: "\<forall>secret_json self'.
         get_auth_credentials get_secret json_loads py_str self cred_name = (Inr secret_json, self') \<longrightarrow>
         py_getitem secret_json ''auth_cred'' = Inr (token self')"
    using get_auth_credentials_success by blast
  show ?thesis by (intro conjI a b c d e f g)
qed

theorem authenticate_result_witness:
  "fst (authenticate toy_b64decode
          (snd (get_auth_credentials secret_store toy_json_loads toy_py_str authenticator_init ''cdms''))
          (map_of [(''Authorization'', HStr ''dG9r'')])) = Inr None
   \<and> fst (authenticate toy_b64decode authenticator_init (map_of [(''Authorization'', HStr ''dG9r'')])) =
       Inr (Some ''mismatch incoming base64 token vs existing token'')
   \<and> snd (get_auth_credentials secret_store toy_json_loads toy_py_str authenticator_init ''other'') = authenticator_init"
proof -
  let ?ok = "get_auth_credentials secret_store toy_json_loads toy_py_str authenticator_init ''cdms''"
  let ?inp = "map_of [(''Authorization'', HStr ''dG9r'')]"
  have tok: "token (snd ?ok) = JString ''tok''"
    by (simp add: get_auth_credentials_def secret_store_def toy_json_loads_def py_getitem_def py_in_def)
  have rhs: "\<exists>v s. ?inp ''Authorization'' = Some (HStr v) \<and> toy_b64decode v = Some s \<and>
               JString s = token (snd ?ok)"
    by (simp add: toy_b64decode_def tok)
  have a: "fst (authenticate toy_b64decode (snd ?ok) ?inp) = Inr None"
    using authenticate_result [of toy_b64decode "snd ?ok" ?inp, THEN conjunct1] rhs by blast
  have b: "fst (authenticate toy_b64decode authenticator_init ?inp) =
             Inr (Some ''mismatch incoming base64 token vs existing token'')"
    by (simp add: authenticate_def toy_b64decode_def authenticator_init_def)
  have c: "snd (get_auth_credentials secret_store toy_json_loads toy_py_str authenticator_init ''other'') = authenticator_init"
    by (simp add: get_auth_credentials_def secret_store_def)
  show ?thesis by (intro conjI a b c)
qed

text \<open>
  C9. When the collaborators return, \<open>start\<close> handles every record of the event, in
  order: a record whose URL contains \<open>spark-staging\<close> or \<open>_temporary\<close> gives no call at all;
  otherwise an event name that starts with \<open>objectcreated\<close>, after \<open>strip\<close> and \<open>lower\<close>,
  gives the download of the file, the removal of the local copy and one \<open>index_one\<close> of
  the file's document; one that starts with \<open>objectremoved\<close> gives one \<open>delete_by_id\<close>
  with the file's URL as id; any other event name gives no call.
\<close>

theorem start_dispatch:
  assumes stat: "\<forall>url. s3_stat_extractor_start w url = Some (stat url)"
    and dl: "\<forall>url. aws_s3_download w url = Some (path url)"
    and ls: "\<forall>p. local_statistics_retriever_start w p = Some (stats p)"
    and ix: "\<forall>doc doc_id. es_index_one w doc doc_id"
    and del: "\<forall>doc_id. es_delete_by_id w doc_id"
  shows "fst (start w records self) = None
       \<and> calls (snd (start w records self)) =
           calls self @ concat (map (record_calls stat path stats) records)"
proof (induction records arbitrary: self)
  case Nil
  show ?case by simp
next
  case (Cons r rs)
  let ?url = "get_s3_url r"
  let ?self1 = "self\<lparr>s3_url := Some ?url\<rparr>"
  show ?case
  proof (cases "ignored ?url")
    case True
    then have "start w (r # rs) self = start w rs ?self1"
      by (simp add: ignoring_phrases_ignored Let_def)
    with Cons.IH [of ?self1] True show ?thesis
      by (simp add: record_calls_def)
  next
    case False
    show ?thesis
    proof (cases "startswith (normalized_event r) ''objectcreated''")
      case True
      let ?doc = "dict_merge (dict_merge [(''s3_url'', JString ?url)] (to_json (stat ?url))) (stats (path ?url))"
      let ?evs = "[S3Download ?url, DelFile (path ?url), EsIndexOne ?doc (stat_s3_url (stat ?url))]"
      have ing: "ingest_file w ?self1 = (None, ?self1\<lparr>calls := calls ?self1 @ ?evs\<rparr>)"
        by (rule ingest_file_returns) (simp_all add: stat dl ls ix)
      have "start w (r # rs) self = start w rs (?self1\<lparr>calls := calls ?self1 @ ?evs\<rparr>)"
        using False True
        by (simp add: ignoring_phrases_ignored Let_def ing normalized_event_def del: ingest_file_def)
      with Cons.IH [of "?self1\<lparr>calls := calls ?self1 @ ?evs\<rparr>"] False True show ?thesis
        by (simp add: record_calls_def)
    next
      case notcreated: False
      show ?thesis
      proof (cases "startswith (normalized_event r) ''objectremoved''")
        case True
        have rem: "remove_file w ?self1 = (None, ?self1\<lparr>calls := calls ?self1 @ [EsDeleteById ?url]\<rparr>)"
          by (rule remove_file_returns) (simp_all add: del)
        have "start w (r # rs) self = start w rs (?self1\<lparr>calls := calls ?self1 @ [EsDeleteById ?url]\<rparr>)"
          using False notcreated True
          by (simp add: ignoring_phrases_ignored Let_def rem normalized_event_def)
        with Cons.IH [of "?self1\<lparr>calls := calls ?self1 @ [EsDeleteById ?url]\<rparr>"] False notcreated True
        show ?thesis by (simp add: record_calls_def)
      next
        case other: False
        have "start w (r # rs) self = start w rs ?self1"
          using False notcreated other
          by (simp add: ignoring_phrases_ignored Let_def normalized_event_def)
        with Cons.IH [of ?self1] False notcreated other show ?thesis
          by (simp add: record_calls_def)
      qed
    qed
  qed
qed


theorem start_dispatch_witness:
  "fst (start world0 event0 \<lparr>s3_url = None, calls = []\<rparr>) = None
   \<and> calls (snd (start world0 event0 \<lparr>s3_url = None, calls = []\<rparr>)) =
       [S3Download ''s3://bkt/x/f.parquet'', DelFile ''/tmp/file.parquet'',
        EsIndexOne [(''s3_url'', JString ''s3://bkt/x/f.parquet''), (''size'', JNumber 7),
                    (''total'', JNumber 3)] ''s3://bkt/x/f.parquet'',
        EsDeleteById ''s3://bkt/x/g.parquet'']"
proof -
  have stat: "\<forall>url. s3_stat_extractor_start world0 url =
                Some ((\<lambda>url. \<lparr>stat_s3_url = url, to_json = [(''size'', JNumber 7)]\<rparr>) url)"
    by (simp add: world0_def)
  have dl: "\<forall>url. aws_s3_download world0 url = Some ((\<lambda>url. ''/tmp/file.parquet'') url)"
    by (simp add: world0_def)
  have ls: "\<forall>p. local_statistics_retriever_start world0 p = Some ((\<lambda>p. [(''total'', JNumber 3)]) p)"
    by (simp add: world0_def)
  have ix: "\<forall>doc doc_id. es_index_one world0 doc doc_id" by (simp add: world0_def)
  have del: "\<forall>doc_id. es_delete_by_id world0 doc_id" by (simp add: world0_def)
  have ig: "ignored ''s3://bkt/x/_temporary/0/f.parquet''" "\<not> ignored ''s3://bkt/x/f.parquet''"
    "\<not> ignored ''s3://bkt/x/g.parquet''" "\<not> ignored ''s3://bkt/x/h.parquet''"
    by (simp_all add: ignored_def)
  have ev: "py_lower (py_strip '' ObjectCreated:Put '') = ''objectcreated:put''"
    "py_lower (py_strip ''ObjectRemoved:Delete'') = ''objectremoved:delete''"
    "py_lower (py_strip ''ObjectRestore:Post'') = ''objectrestore:post''"
    by code_simp+
  show ?thesis
    using start_dispatch [OF stat dl ls ix del, of event0 "\<lparr>s3_url = None, calls = []\<rparr>"]
    by (simp add: event0_def record_calls_def normalized_event_def ig ev)
qed

end
